theory Spec2Isabelle
  imports Complex_Main
begin

section \<open>Errors\<close>

text \<open>
  Every \<open>throw\<close>, failed \<open>assert\<close> and rejected promise of the TypeScript source is a
  value of this type. \<open>Error msg\<close> is \<open>new Error(msg)\<close>, \<open>AssertionError msg\<close> is what
  Node's \<open>assert\<close> throws, \<open>ZodError\<close> is a failed schema parse, \<open>QueueTimeout\<close> is the
  rejection of a queue wait that expired, and \<open>Thrown msg\<close> stands for an exception raised
  inside a collaborator that is modelled as a parameter.
\<close>

datatype error =
    Error string
  | AssertionError string
  | ZodError
  | QueueTimeout
  | Thrown string

definition and_then :: "error + 'a \<Rightarrow> ('a \<Rightarrow> error + 'b) \<Rightarrow> error + 'b" where
  "and_then r f = (case r of Inl e \<Rightarrow> Inl e | Inr x \<Rightarrow> f x)"

section \<open>Request schemas (\<open>src/data/schemas.ts\<close>)\<close>

subsection \<open>JavaScript values reaching a schema\<close>

text \<open>
  A schema receives an arbitrary JavaScript value: a decoded JSON body, or an object
  decoded from a protobuf (which may hold \<open>Uint8Array\<close> fields). An object is kept as
  the list of its own properties, each name once, looked up with \<open>map_of\<close>. Numbers are
  the finite doubles, read as reals; \<open>NaN\<close> and the infinities, which no JSON body can
  hold, have no representative.
\<close>

datatype jsval =
    JUndefined
  | JNull
  | JBoolean bool
  | JNumber real
  | JString string
  | JUint8Array "nat list"
  | JArray "jsval list"
  | JObject "(string \<times> jsval) list"

subsection \<open>The combinators of the zod library used by the two schemas\<close>

text \<open>
  zod is an external library; each combinator below is its documented behaviour,
  restricted to acceptance and the parsed output (the list of issues inside a
  \<open>ZodError\<close> is not modelled).
\<close>

type_synonym 'a ZodType = "jsval \<Rightarrow> error + 'a"


definition z_number :: "real ZodType" where
  "z_number v = (case v of JNumber n \<Rightarrow> Inr n | _ \<Rightarrow> Inl ZodError)"

definition z_literal :: "real \<Rightarrow> real ZodType" where
  "z_literal c v = (case v of JNumber n \<Rightarrow> if n = c then Inr c else Inl ZodError
                     | _ \<Rightarrow> Inl ZodError)"

definition z_unknown :: "jsval ZodType" where
  "z_unknown v = Inr v"

definition z_instanceof_Uint8Array :: "nat list ZodType" where
  "z_instanceof_Uint8Array v = (case v of JUint8Array bs \<Rightarrow> Inr bs | _ \<Rightarrow> Inl ZodError)"


fun parse_elements :: "'a ZodType \<Rightarrow> jsval list \<Rightarrow> error + 'a list" where
  "parse_elements t [] = Inr []"
| "parse_elements t (v # vs) =
     and_then (t v) (\<lambda>x. and_then (parse_elements t vs) (\<lambda>xs. Inr (x # xs)))"

definition array :: "'a ZodType \<Rightarrow> 'a list ZodType" where
  "array t v = (case v of JArray vs \<Rightarrow> parse_elements t vs | _ \<Rightarrow> Inl ZodError)"

definition array_min :: "nat \<Rightarrow> 'a list ZodType \<Rightarrow> 'a list ZodType" where
  "array_min n t v = and_then (t v) (\<lambda>xs. if n \<le> length xs then Inr xs else Inl ZodError)"


text \<open>
  \<open>z.object(shape)\<close> rejects whatever is not an object (primitives, \<open>null\<close> and
  arrays) and then parses, for each key of the shape, the property of that name
  (\<open>undefined\<close> when the object has none). A \<open>Uint8Array\<close> is an object to zod; it has
  none of the properties the two schemas name.
\<close>

definition property :: "(string \<times> jsval) list \<Rightarrow> string \<Rightarrow> jsval" where
  "property kvs k = (case map_of kvs k of None \<Rightarrow> JUndefined | Some v \<Rightarrow> v)"

definition z_object :: "((string \<times> jsval) list \<Rightarrow> error + 'a) \<Rightarrow> 'a ZodType" where
  "z_object shape v =
     (case v of JObject kvs \<Rightarrow> shape kvs | JUint8Array bs \<Rightarrow> shape [] | _ \<Rightarrow> Inl ZodError)"

subsection \<open>\<open>UsernameReservationSchema\<close>\<close>




subsection \<open>\<open>GroupStateSchema\<close>\<close>

text \<open>
  \<^verbatim>\<open>
  export const GroupStateSchema = z.object({
    publicKey: z.instanceof(Uint8Array),
    version: z.literal(0),
    accessControl: z.object({
      attributes: z.number(), members: z.number(), addFromInviteLink: z.number(),
    }),
    members: z.unknown().array().min(1),
  });
  \<close>
\<close>

record AccessControl =
  attributes :: real
  ac_members :: real
  addFromInviteLink :: real

record GroupState =
  publicKey :: "nat list"
  version :: real
  accessControl :: AccessControl
  members :: "jsval list"

definition AccessControlSchema :: "AccessControl ZodType" where
  "AccessControlSchema =
     z_object (\<lambda>kvs.
       and_then (z_number (property kvs ''attributes'')) (\<lambda>a.
       and_then (z_number (property kvs ''members'')) (\<lambda>m.
       and_then (z_number (property kvs ''addFromInviteLink'')) (\<lambda>l.
       Inr \<lparr>attributes = a, ac_members = m, addFromInviteLink = l\<rparr>))))"

definition GroupStateSchema :: "GroupState ZodType" where
  "GroupStateSchema =
     z_object (\<lambda>kvs.
       and_then (z_instanceof_Uint8Array (property kvs ''publicKey'')) (\<lambda>pk.
       and_then (z_literal 0 (property kvs ''version'')) (\<lambda>ver.
       and_then (AccessControlSchema (property kvs ''accessControl'')) (\<lambda>ac.
       and_then (array_min 1 (array z_unknown) (property kvs ''members'')) (\<lambda>ms.
       Inr \<lparr>publicKey = pk, version = ver, accessControl = ac, members = ms\<rparr>)))))"

section \<open>The test-facing server (\<open>src/api/server.ts\<close>)\<close>

subsection \<open>Types of the collaborators\<close>

text \<open>
  \<open>server.ts\<close> imports its data types from other modules. They are modelled by the
  fields \<open>server.ts\<close> reads.
\<close>

type_synonym bytes = "nat list"
type_synonym UUID = string
type_synonym ProvisioningCode = string
type_synonym RegistrationId = nat
type_synonym DeviceKeys = bytes

text \<open>Modelled from the spec: the \<open>Device\<close> descriptor of \<open>src/data/device\<close>.\<close>

record Device =
  uuid :: UUID
  pni :: UUID
  number :: string
  registrationId :: RegistrationId
  deviceId :: nat

text \<open>
  Modelled from the spec: \<open>PRIMARY_DEVICE_ID\<close> of \<open>src/constants\<close>; device id 1 is
  reserved for the primary device.
\<close>

definition PRIMARY_DEVICE_ID :: nat where
  "PRIMARY_DEVICE_ID = 1"

text \<open>
  Modelled from the spec: \<open>EnvelopeType\<close> of \<open>src/server/base\<close>. \<open>server.ts\<close> names
  only \<open>SealedSender\<close>; the other envelope types are kept by their number.
\<close>

datatype EnvelopeType = SealedSender | OtherEnvelope nat

text \<open>
  Modelled from the spec: the result of \<open>encryptAttachment\<close> (\<open>{ blob, key, digest,
  size }\<close>) and the attachment pointer built from it and a CDN key.
\<close>

record Attachment =
  blob :: bytes
  key :: bytes
  digest :: bytes
  plaintextSize :: nat

record AttachmentPointer =
  cdnKey :: string
  pointerKey :: bytes
  pointerDigest :: bytes
  pointerSize :: nat

text \<open>
  Modelled from the spec: \<open>PrimaryDevice\<close> of \<open>src/api/primary-device\<close>, the test-side
  simulator. The model keeps what the constructor receives from \<open>createPrimaryDevice\<close>
  (the bound callbacks apart), the devices handed to \<open>addSecondaryDevice\<close> and the
  envelopes handed to \<open>handleEnvelope\<close>. \<open>PrimaryDevice\<close> objects are shared between
  the server's \<open>primaryDevices\<close> map (under two keys) and the test, so the server state
  holds them in a heap and refers to them by address.
\<close>

record PrimaryDevice =
  device :: Device
  profileName :: string
  contacts :: AttachmentPointer
  groups :: AttachmentPointer
  secondaryDevices :: "Device list"
  inbox :: "(Device option \<times> EnvelopeType \<times> bytes) list"

record CreatePrimaryDeviceOptions =
  opt_profileName :: string
  opt_contacts :: "nat list"

record PendingProvisionResponse =
  provisionURL :: string
  primaryDevice :: nat

datatype QueryValue = QString string | QArray "string list"

record Listener =
  port :: nat
  host :: "string option"
  closed :: bool

record AddressInfo =
  boundAddress :: string
  family :: string
  boundPort :: nat

datatype AddressResult = NoAddress | PipeName string | Info AddressInfo

subsection \<open>Collaborators\<close>

text \<open>
  The functions \<open>server.ts\<close> imports from other modules are parameters, collected
  in one record. \<open>'b\<close> is the state of the base class \<open>BaseServer\<close> (accounts, devices,
  stored attachments); each method of the base class takes that state and returns it
  updated. Collaborators that draw random bytes take the number of draws made so far.
\<close>

record 'b Collaborators =
  generateRandomE164 :: "nat \<Rightarrow> string"
  encryptAttachment :: "nat \<Rightarrow> bytes \<Rightarrow> Attachment"
  attachmentToPointer :: "string \<Rightarrow> Attachment \<Rightarrow> AttachmentPointer"
  toContact :: "PrimaryDevice \<Rightarrow> bytes"
  serializeContacts :: "bytes list \<Rightarrow> bytes"
  primaryInit :: "PrimaryDevice \<Rightarrow> error + unit"
  getIdentityKey :: "PrimaryDevice \<Rightarrow> bytes"
  generateKeys :: "PrimaryDevice \<Rightarrow> Device \<Rightarrow> DeviceKeys"
  envelopeResult :: "PrimaryDevice \<Rightarrow> Device option \<Rightarrow> EnvelopeType \<Rightarrow> bytes \<Rightarrow> error + unit"
  parseURLQuery :: "string \<Rightarrow> string \<Rightarrow> QueryValue option"
  deserializePublicKey :: "string \<Rightarrow> error + bytes"
  provisionEnvelope ::
    "nat \<Rightarrow> bytes \<Rightarrow> PrimaryDevice \<Rightarrow> ProvisioningCode \<Rightarrow> bytes \<Rightarrow> bytes"
  serverAddress :: "Listener \<Rightarrow> AddressResult"
  storeAttachment :: "'b \<Rightarrow> bytes \<Rightarrow> string \<times> 'b"
  generateUUID :: "'b \<Rightarrow> UUID \<times> 'b"
  generateRegistrationId :: "'b \<Rightarrow> RegistrationId \<times> 'b"
  registerDevice ::
    "'b \<Rightarrow> UUID \<Rightarrow> UUID \<Rightarrow> string \<Rightarrow> RegistrationId \<Rightarrow> (error + Device) \<times> 'b"
  getProvisioningCode :: "'b \<Rightarrow> UUID \<Rightarrow> string \<Rightarrow> (error + ProvisioningCode) \<times> 'b"
  super_updateDeviceKeys :: "'b \<Rightarrow> Device \<Rightarrow> DeviceKeys \<Rightarrow> (error + unit) \<times> 'b"
  super_provisionDevice ::
    "'b \<Rightarrow> string \<Rightarrow> string \<Rightarrow> ProvisioningCode \<Rightarrow> RegistrationId
       \<Rightarrow> (error + Device) \<times> 'b"

subsection \<open>Promise queues\<close>

text \<open>
  Modelled from the spec: \<open>PromiseQueue\<close> of \<open>src/util\<close>, a FIFO constructed with a
  timeout. \<open>push\<close> and \<open>pushAndWait\<close> append a value; \<open>pushAndWait\<close> moreover suspends
  its caller until the value has been shifted. \<open>shift\<close> takes the oldest value; on an
  empty queue it suspends its caller, and a wait that nothing serves ends with
  \<open>QueueTimeout\<close>. A wait that is served later is the same \<open>shift\<close> made later, so
  the model needs no waiting state: callers interleave at their suspension points.
  When the wait of a \<open>pushAndWait\<close> expires, its entry is invalidated: \<open>invalidate i\<close>
  takes the entry at position \<open>i\<close> out of the queue.
\<close>

record 'a PromiseQueue =
  queueTimeout :: "int option"
  entries :: "'a list"

definition newPromiseQueue :: "int option \<Rightarrow> 'a PromiseQueue" where
  "newPromiseQueue t = \<lparr>queueTimeout = t, entries = []\<rparr>"

definition push :: "'a PromiseQueue \<Rightarrow> 'a \<Rightarrow> 'a PromiseQueue" where
  "push q v = q\<lparr>entries := entries q @ [v]\<rparr>"

definition pushAndWait :: "'a PromiseQueue \<Rightarrow> 'a \<Rightarrow> 'a PromiseQueue" where
  "pushAndWait q v = q\<lparr>entries := entries q @ [v]\<rparr>"

definition shift :: "'a PromiseQueue \<Rightarrow> (error + 'a) \<times> 'a PromiseQueue" where
  "shift q = (case entries q of
                [] \<Rightarrow> (Inl QueueTimeout, q)
              | v # vs \<Rightarrow> (Inr v, q\<lparr>entries := vs\<rparr>))"

definition invalidate :: "nat \<Rightarrow> 'a PromiseQueue \<Rightarrow> 'a PromiseQueue" where
  "invalidate i q = q\<lparr>entries := take i (entries q) @ drop (Suc i) (entries q)\<rparr>"

subsection \<open>Configuration\<close>

text \<open>
  \<^verbatim>\<open>
  const DEFAULT_API_TIMEOUT = 60000;
  this.config = { timeout: DEFAULT_API_TIMEOUT, trustRoot: TRUST_ROOT,
                  zkParams: ZK_PARAMS, ...config,
                  https: { key: KEY, cert: CERT, ...(config.https || {}) } };
  \<close>
  Every field of \<open>Config\<close> is optional. An object spread copies own properties, also one
  whose value is \<open>undefined\<close>, so a property can be omitted, present and undefined, or
  given. The key material (\<open>TRUST_ROOT\<close>, \<open>ZK_PARAMS\<close>, \<open>KEY\<close>, \<open>CERT\<close>) is read from
  files at load time and is a parameter of the constructor.
\<close>

datatype 'a property = Omitted | Undefined | Given 'a

record Config =
  cfg_trustRoot :: "(string \<times> string) property"
  cfg_zkParams :: "(string \<times> string) property"
  cfg_https :: "(bytes option \<times> bytes option) property"
  cfg_timeout :: "int property"

record StrictConfig =
  trustRoot :: "(string \<times> string) option"
  zkParams :: "(string \<times> string) option"
  https_options :: "bytes \<times> bytes"
  timeout :: "int option"

record Defaults =
  TRUST_ROOT :: "string \<times> string"
  ZK_PARAMS :: "string \<times> string"
  KEY_CERT :: "bytes \<times> bytes"

definition DEFAULT_API_TIMEOUT :: int where
  "DEFAULT_API_TIMEOUT = 60000"

definition spread :: "'a \<Rightarrow> 'a property \<Rightarrow> 'a option" where
  "spread dflt p = (case p of Omitted \<Rightarrow> Some dflt | Undefined \<Rightarrow> None | Given v \<Rightarrow> Some v)"

definition strictConfig :: "Defaults \<Rightarrow> Config \<Rightarrow> StrictConfig" where
  "strictConfig d cfg =
     \<lparr>trustRoot = spread (TRUST_ROOT d) (cfg_trustRoot cfg),
      zkParams = spread (ZK_PARAMS d) (cfg_zkParams cfg),
      https_options =
        (case cfg_https cfg of
           Given (k, c) \<Rightarrow> (case_option (fst (KEY_CERT d)) id k, case_option (snd (KEY_CERT d)) id c)
         | _ \<Rightarrow> KEY_CERT d),
      timeout = spread DEFAULT_API_TIMEOUT (cfg_timeout cfg)\<rparr>"

subsection \<open>Server state\<close>

text \<open>
  The fields of \<open>class Server\<close>. Three kinds of objects are shared by reference and
  live in heaps addressed by numbers, with a counter for the next free address:
  \<^item> \<open>PrimaryDevice\<close> objects (\<open>primaries\<close>);
  \<^item> the two queues that each call of \<open>getProvisioningResponse\<close> creates
    (\<open>responseQueue\<close>, \<open>resultQueue\<close>), which live on in the \<open>complete\<close> closure, in the
    suspended call and in the two \<open>provisionResultQueue\<close> maps. One record per call
    (\<open>activations\<close>) holds both queues and the call's \<open>uuid\<close>; \<open>awaiting\<close> tells
    that the call is still suspended at \<open>responseQueue.shift()\<close>.
  A \<open>PendingProvision\<close> is the address of its activation: its \<open>complete\<close> closure
  captures that call's two queues. \<open>draws\<close> counts the random draws made so far.
  \<open>keysUpdated\<close> is a history variable, not program state: the devices with which
  \<open>updateDeviceKeys\<close> has been entered, in order.
\<close>

record Activation =
  act_uuid :: UUID
  responseQueue :: "PendingProvisionResponse PromiseQueue"
  resultQueue :: "Device PromiseQueue"
  awaiting :: bool

record 'b Server =
  config :: StrictConfig
  base :: 'b
  primaries :: "nat \<Rightarrow> PrimaryDevice"
  nextPrimary :: nat
  primaryDevices :: "string \<rightharpoonup> nat"
  knownNumbers :: "string set"
  https :: "Listener option"
  emptyAttachment :: "AttachmentPointer option"
  provisionQueue :: "nat PromiseQueue"
  activations :: "nat \<Rightarrow> Activation"
  nextActivation :: nat
  provisionResultQueueByCode :: "ProvisioningCode \<rightharpoonup> nat"
  provisionResultQueueByKey :: "string \<rightharpoonup> nat"
  manifestQueueByUuid :: "UUID \<rightharpoonup> int PromiseQueue"
  draws :: nat
  keysUpdated :: "Device list"

text \<open>
  \<^verbatim>\<open>
  private createQueue<T>(): PromiseQueue<T> {
    return new PromiseQueue({ timeout: this.config.timeout });
  }
  \<close>
\<close>

definition createQueue :: "'b Server \<Rightarrow> 'a PromiseQueue" where
  "createQueue s = newPromiseQueue (timeout (config s))"

text \<open>
  The constructor. \<open>b\<close> is the state \<open>super()\<close> leaves. The heaps start out filled
  with unused cells. The keys the constructor derives from the configuration through
  libsignal (\<open>trustRoot\<close>, \<open>zkSecret\<close>, \<open>certificate\<close>) are not kept: the queues and
  maps of the server do not depend on them.
\<close>

definition unusedDevice :: Device where
  "unusedDevice = \<lparr>uuid = [], pni = [], number = [], registrationId = 0, deviceId = 0\<rparr>"

definition unusedPointer :: AttachmentPointer where
  "unusedPointer = \<lparr>cdnKey = [], pointerKey = [], pointerDigest = [], pointerSize = 0\<rparr>"

definition unusedPrimary :: PrimaryDevice where
  "unusedPrimary = \<lparr>device = unusedDevice, profileName = [], contacts = unusedPointer,
     groups = unusedPointer, secondaryDevices = [], inbox = []\<rparr>"

definition unusedActivation :: Activation where
  "unusedActivation = \<lparr>act_uuid = [], responseQueue = newPromiseQueue None,
     resultQueue = newPromiseQueue None, awaiting = False\<rparr>"

definition constructor :: "Defaults \<Rightarrow> Config \<Rightarrow> 'b \<Rightarrow> 'b Server" where
  "constructor d cfg b =
     (let c = strictConfig d cfg in
      \<lparr>config = c, base = b,
       primaries = (\<lambda>r. unusedPrimary), nextPrimary = 0,
       primaryDevices = Map.empty, knownNumbers = {},
       https = None, emptyAttachment = None,
       provisionQueue = newPromiseQueue (timeout c),
       activations = (\<lambda>a. unusedActivation), nextActivation = 0,
       provisionResultQueueByCode = Map.empty, provisionResultQueueByKey = Map.empty,
       manifestQueueByUuid = Map.empty,
       draws = 0, keysUpdated = []\<rparr>)"

subsection \<open>Lifecycle: \<open>listen\<close>, \<open>close\<close>, \<open>address\<close>\<close>

text \<open>
  Every method returns its outcome (\<open>Inl\<close> the exception thrown, or the rejection of
  the promise) together with the state it leaves, since a method may have changed the
  state before it throws.
  \<^verbatim>\<open>
  public async listen(port: number, host?: string): Promise<void> {
    if (this.https) { throw new Error('Already listening'); }
    const emptyData = encryptAttachment(Buffer.alloc(0));
    const emptyCDNKey = await this.storeAttachment(emptyData.blob);
    this.emptyAttachment = attachmentToPointer(emptyCDNKey, emptyData);
    ...
    this.https = server;
    return await new Promise((resolve) => { server.listen(port, host, () => resolve()); });
  }
  \<close>
\<close>

definition listen ::
  "'b Collaborators \<Rightarrow> nat \<Rightarrow> string option \<Rightarrow> 'b Server \<Rightarrow> (error + unit) \<times> 'b Server" where
  "listen env p h s =
     (if https s \<noteq> None then (Inl (Error ''Already listening''), s)
      else
        let emptyData = encryptAttachment env (draws s) [];
            (emptyCDNKey, b) = storeAttachment env (base s) (blob emptyData)
        in (Inr (),
            s\<lparr>draws := Suc (draws s), base := b,
              emptyAttachment := Some (attachmentToPointer env emptyCDNKey emptyData),
              https := Some \<lparr>port = p, host = h, closed = False\<rparr>\<rparr>))"

text \<open>
  \<^verbatim>\<open>
  public async close(): Promise<void> {
    const https = this.https;
    if (!https) { throw new Error('Not listening'); }
    await new Promise((resolve) => https.close(resolve));
  }
  \<close>
  \<open>close\<close> closes the listener object and leaves \<open>this.https\<close> set.
\<close>

definition close :: "'b Server \<Rightarrow> (error + unit) \<times> 'b Server" where
  "close s =
     (case https s of
        None \<Rightarrow> (Inl (Error ''Not listening''), s)
      | Some l \<Rightarrow> (Inr (), s\<lparr>https := Some (l\<lparr>closed := True\<rparr>)\<rparr>))"

text \<open>
  \<^verbatim>\<open>
  public address(): AddressInfo {
    if (!this.https) { throw new Error('Not listening'); }
    const result = this.https.address();
    if (!result || typeof result !== 'object') {
      throw new Error('Invalid .address() result');
    }
    return result;
  }
  \<close>
  \<open>address\<close> is synchronous and assigns nothing, so it returns its outcome only.
\<close>

definition address :: "'b Collaborators \<Rightarrow> 'b Server \<Rightarrow> error + AddressInfo" where
  "address env s =
     (case https s of
        None \<Rightarrow> Inl (Error ''Not listening'')
      | Some l \<Rightarrow>
          (case serverAddress env l of
             Info a \<Rightarrow> Inr a
           | _ \<Rightarrow> Inl (Error ''Invalid .address() result'')))"

subsection \<open>Queues the test waits on\<close>

text \<open>
  \<^verbatim>\<open>
  public async waitForProvision(): Promise<PendingProvision> {
    return await this.provisionQueue.shift();
  }
  \<close>
\<close>

definition waitForProvision :: "'b Server \<Rightarrow> (error + nat) \<times> 'b Server" where
  "waitForProvision s =
     (let (r, q) = shift (provisionQueue s) in (r, s\<lparr>provisionQueue := q\<rparr>))"

text \<open>
  \<^verbatim>\<open>
  private async waitForStorageManifest(device: Device, afterVersion?: number) {
    let queue = this.manifestQueueByUuid.get(device.uuid);
    if (!queue) {
      queue = this.createQueue();
      this.manifestQueueByUuid.set(device.uuid, queue);
    }
    let version: number;
    do {
      version = await queue.shift();
    } while (afterVersion !== undefined && version <= afterVersion);
  }
  \<close>
  The loop is \<open>shiftUntilAfter\<close>: it returns the outcome of the last \<open>shift\<close> (the
  version the loop ended with, or the rejection that ended it) and the queue as the
  loop leaves it. The queue it is run on holds the versions that its successive
  \<open>shift\<close>s receive. Versions are the numbers \<open>onStorageManifestUpdate\<close> pushes, which
  are integers (\<open>Long.toNumber()\<close>), and so is \<open>afterVersion\<close>, a version seen before.
\<close>

function shiftUntilAfter ::
  "int option \<Rightarrow> int PromiseQueue \<Rightarrow> (error + int) \<times> int PromiseQueue" where
  "shiftUntilAfter afterVersion queue =
     (case shift queue of
        (Inl e, q) \<Rightarrow> (Inl e, q)
      | (Inr ver, q) \<Rightarrow>
          (case afterVersion of
             None \<Rightarrow> (Inr ver, q)
           | Some a \<Rightarrow> if ver \<le> a then shiftUntilAfter afterVersion q else (Inr ver, q)))"
  by pat_completeness auto
termination
  by (relation "measure (\<lambda>(a, q). length (entries q))")
     (auto simp: shift_def split: list.splits)

declare shiftUntilAfter.simps [simp del]

definition manifestQueue :: "'b Server \<Rightarrow> UUID \<Rightarrow> int PromiseQueue" where
  "manifestQueue s u =
     (case manifestQueueByUuid s u of None \<Rightarrow> createQueue s | Some q \<Rightarrow> q)"

definition waitForStorageManifest ::
  "Device \<Rightarrow> int option \<Rightarrow> 'b Server \<Rightarrow> (error + unit) \<times> 'b Server" where
  "waitForStorageManifest dev afterVersion s =
     (let (r, q) = shiftUntilAfter afterVersion (manifestQueue s (uuid dev))
      in (case r of Inl e \<Rightarrow> Inl e | Inr ver \<Rightarrow> Inr (),
          s\<lparr>manifestQueueByUuid := (manifestQueueByUuid s)(uuid dev \<mapsto> q)\<rparr>))"

text \<open>
  \<^verbatim>\<open>
  protected async onStorageManifestUpdate(device: Device, version: Long) {
    let queue = this.manifestQueueByUuid.get(device.uuid);
    if (!queue) {
      queue = this.createQueue();
      this.manifestQueueByUuid.set(device.uuid, queue);
    }
    queue.push(version.toNumber());
  }
  \<close>
\<close>

definition onStorageManifestUpdate :: "Device \<Rightarrow> int \<Rightarrow> 'b Server \<Rightarrow> 'b Server" where
  "onStorageManifestUpdate dev ver s =
     s\<lparr>manifestQueueByUuid :=
         (manifestQueueByUuid s)(uuid dev \<mapsto> push (manifestQueue s (uuid dev)) ver)\<rparr>"

subsection \<open>Creating devices\<close>

text \<open>
  \<^verbatim>\<open>
  private async generateNumber(): Promise<string> {
    let number: string;
    do {
      number = generateRandomE164();
    } while (this.knownNumbers.has(number));
    this.knownNumbers.add(number);
    return number;
  }
  \<close>
  The loop ends only when the generator yields a number that is not known yet; a
  run that never ends is the value \<open>None\<close>. \<open>drawNumber rnd known i\<close> is the loop
  started at draw \<open>i\<close>; it returns the number and the index of the next draw.
\<close>

partial_function (option) drawNumber ::
  "(nat \<Rightarrow> string) \<Rightarrow> string set \<Rightarrow> nat \<Rightarrow> (string \<times> nat) option" where
  "drawNumber rnd known i =
     (if rnd i \<in> known then drawNumber rnd known (Suc i) else Some (rnd i, Suc i))"

declare drawNumber.simps [code]

definition generateNumber :: "'b Collaborators \<Rightarrow> 'b Server \<Rightarrow> (string \<times> 'b Server) option" where
  "generateNumber env s =
     (case drawNumber (generateRandomE164 env) (knownNumbers s) (draws s) of
        None \<Rightarrow> None
      | Some (num, i) \<Rightarrow>
          Some (num, s\<lparr>knownNumbers := insert num (knownNumbers s), draws := i\<rparr>))"

text \<open>
  \<^verbatim>\<open>
  public async createPrimaryDevice({ profileName, contacts = [] }) {
    const number = await this.generateNumber();
    const uuid = await this.generateUUID();
    const pni = await this.generateUUID();
    const registrationId = await this.generateRegistrationId();
    const device = await this.registerDevice({ uuid, pni, number, registrationId });
    if (!this.emptyAttachment) {
      throw new Error('Mock#init must be called before starting the server');
    }
    const contactsAttachment = encryptAttachment(
      serializeContacts(contacts.map((device) => device.toContact())));
    const contactsCDNKey = await this.storeAttachment(contactsAttachment.blob);
    const primary = new PrimaryDevice(device, {
      profileName, contacts: attachmentToPointer(contactsCDNKey, contactsAttachment),
      groups: this.emptyAttachment, ... });
    await primary.init();
    this.primaryDevices.set(number, primary);
    this.primaryDevices.set(uuid, primary);
    return primary;
  }
  \<close>
  \<open>registerNewPrimary\<close> is the method after \<open>generateNumber\<close> has returned \<open>num\<close>. It
  returns the address of the new \<open>PrimaryDevice\<close>.
\<close>

definition registerNewPrimary ::
  "'b Collaborators \<Rightarrow> CreatePrimaryDeviceOptions \<Rightarrow> string \<Rightarrow> 'b Server
     \<Rightarrow> (error + nat) \<times> 'b Server" where
  "registerNewPrimary env opts num s =
     (let (u, b1) = generateUUID env (base s);
          (p, b2) = generateUUID env b1;
          (rid, b3) = generateRegistrationId env b2;
          (registered, b4) = registerDevice env b3 u p num rid;
          s1 = s\<lparr>base := b4\<rparr>
      in case registered of
           Inl e \<Rightarrow> (Inl e, s1)
         | Inr dev \<Rightarrow>
             (case emptyAttachment s1 of
                None \<Rightarrow>
                  (Inl (Error ''Mock#init must be called before starting the server''), s1)
              | Some emptyPointer \<Rightarrow>
                  let contactsAttachment =
                        encryptAttachment env (draws s1)
                          (serializeContacts env
                             (map (\<lambda>r. toContact env (primaries s1 r)) (opt_contacts opts)));
                      (contactsCDNKey, b5) =
                        storeAttachment env (base s1) (blob contactsAttachment);
                      s2 = s1\<lparr>base := b5, draws := Suc (draws s1)\<rparr>;
                      primary =
                        \<lparr>device = dev, profileName = opt_profileName opts,
                         contacts = attachmentToPointer env contactsCDNKey contactsAttachment,
                         groups = emptyPointer, secondaryDevices = [], inbox = []\<rparr>
                  in case primaryInit env primary of
                       Inl e \<Rightarrow> (Inl e, s2)
                     | Inr _ \<Rightarrow>
                         let r = nextPrimary s2 in
                         (Inr r,
                          s2\<lparr>primaries := (primaries s2)(r := primary),
                             nextPrimary := Suc r,
                             primaryDevices := ((primaryDevices s2)(num \<mapsto> r))(u \<mapsto> r)\<rparr>)))"

definition createPrimaryDevice ::
  "'b Collaborators \<Rightarrow> CreatePrimaryDeviceOptions \<Rightarrow> 'b Server
     \<Rightarrow> ((error + nat) \<times> 'b Server) option" where
  "createPrimaryDevice env opts s =
     (case generateNumber env s of
        None \<Rightarrow> None
      | Some (num, s1) \<Rightarrow> Some (registerNewPrimary env opts num s1))"

text \<open>
  The number of the primary device that a call of \<open>createPrimaryDevice\<close> returned
  (\<open>primary.device.number\<close>).
\<close>

definition createdNumber :: "((error + nat) \<times> 'b Server) option \<Rightarrow> string option" where
  "createdNumber res =
     (case res of
        None \<Rightarrow> None
      | Some (Inl e, s) \<Rightarrow> None
      | Some (Inr r, s) \<Rightarrow> Some (number (device (primaries s r))))"

subsection \<open>Provisioning\<close>

text \<open>
  The decimal digits of a number, as a template literal prints it (registration ids
  are far below \<open>10\<^sup>2\<^sup>1\<close>, from where JavaScript prints an exponent).
\<close>

fun decimal :: "nat \<Rightarrow> string" where
  "decimal n =
     (if n < 10 then [''0123456789'' ! n]
      else decimal (n div 10) @ [''0123456789'' ! (n mod 10)])"

declare decimal.simps [simp del]

definition provisionKey :: "Device \<Rightarrow> string" where
  "provisionKey dev = uuid dev @ ''.'' @ decimal (registrationId dev)"

text \<open>
  \<^verbatim>\<open>
  public override async updateDeviceKeys(device: Device, keys: DeviceKeys) {
    await super.updateDeviceKeys(device, keys);
    const key = `${device.uuid}.${device.registrationId}`;
    // Device is marked as provisioned only once we have its keys
    const resultQueue = this.provisionResultQueueByKey.get(key);
    if (!resultQueue) { return; }
    this.provisionResultQueueByKey.delete(key);
    await resultQueue.pushAndWait(device);
  }
  \<close>
  On entry the model notes the device in the history variable \<open>keysUpdated\<close>.
\<close>

definition updateDeviceKeys ::
  "'b Collaborators \<Rightarrow> Device \<Rightarrow> DeviceKeys \<Rightarrow> 'b Server \<Rightarrow> (error + unit) \<times> 'b Server" where
  "updateDeviceKeys env dev keys s =
     (let s0 = s\<lparr>keysUpdated := keysUpdated s @ [dev]\<rparr>;
          (r, b) = super_updateDeviceKeys env (base s0) dev keys;
          s1 = s0\<lparr>base := b\<rparr>
      in case r of
           Inl e \<Rightarrow> (Inl e, s1)
         | Inr _ \<Rightarrow>
             (case provisionResultQueueByKey s1 (provisionKey dev) of
                None \<Rightarrow> (Inr (), s1)
              | Some a \<Rightarrow>
                  let act = activations s1 a in
                  (Inr (),
                   s1\<lparr>provisionResultQueueByKey :=
                        (provisionResultQueueByKey s1)(provisionKey dev := None),
                      activations := (activations s1)
                        (a := act\<lparr>resultQueue := pushAndWait (resultQueue act) dev\<rparr>)\<rparr>)))"

text \<open>
  \<^verbatim>\<open>
  public async createSecondaryDevice(primary: PrimaryDevice): Promise<Device> {
    const registrationId = await this.generateRegistrationId();
    const device = await this.registerDevice({
      uuid: primary.device.uuid, pni: primary.device.pni,
      number: primary.device.number, registrationId });
    await this.updateDeviceKeys(device, await primary.generateKeys(device));
    primary.addSecondaryDevice(device);
    return device;
  }
  \<close>
\<close>

definition createSecondaryDevice ::
  "'b Collaborators \<Rightarrow> nat \<Rightarrow> 'b Server \<Rightarrow> (error + Device) \<times> 'b Server" where
  "createSecondaryDevice env r s =
     (let owner = device (primaries s r);
          (rid, b1) = generateRegistrationId env (base s);
          (registered, b2) = registerDevice env b1 (uuid owner) (pni owner) (number owner) rid;
          s1 = s\<lparr>base := b2\<rparr>
      in case registered of
           Inl e \<Rightarrow> (Inl e, s1)
         | Inr dev \<Rightarrow>
             (case updateDeviceKeys env dev (generateKeys env (primaries s1 r) dev) s1 of
                (Inl e, s2) \<Rightarrow> (Inl e, s2)
              | (Inr _, s2) \<Rightarrow>
                  let primary = primaries s2 r in
                  (Inr dev,
                   s2\<lparr>primaries := (primaries s2)
                        (r := primary\<lparr>secondaryDevices := secondaryDevices primary @ [dev]\<rparr>)\<rparr>)))"

text \<open>
  \<^verbatim>\<open>
  public async getProvisioningResponse(uuid: UUID): Promise<ProvisioningResponse> {
    const responseQueue = this.createQueue<PendingProvisionResponse>();
    const resultQueue = this.createQueue<Device>();
    await this.provisionQueue.pushAndWait({
      complete: async (response) => {
        await responseQueue.pushAndWait(response);
        return await resultQueue.shift();
      },
    });
    const { provisionURL, primaryDevice } = await responseQueue.shift();
    const query = parseURL(provisionURL, true).query || {};
    assert.strictEqual(query.uuid, uuid, 'UUID mismatch');
    if (!query.pub_key || Array.isArray(query.pub_key)) {
      throw new Error('Expected `pub_key` in provision URL');
    }
    const publicKey = PublicKey.deserialize(Buffer.from(query.pub_key, 'base64'));
    const identityKey = await primaryDevice.getIdentityKey();
    const provisioningCode = await this.getProvisioningCode(
      uuid, primaryDevice.device.number);
    this.provisionResultQueueByCode.set(provisioningCode, resultQueue);
    ... // encode and encrypt the ProvisionMessage
    return { envelope: Buffer.from(envelope) };
  }
  \<close>
  The call runs in two parts. The first creates the two queues and hands the
  \<open>PendingProvision\<close> to the test; it returns the address of the activation. The
  second runs once the test has answered: it takes the response from \<open>responseQueue\<close>
  and issues the provisioning code.
\<close>

definition getProvisioningResponse_begin :: "UUID \<Rightarrow> 'b Server \<Rightarrow> nat \<times> 'b Server" where
  "getProvisioningResponse_begin u s =
     (let a = nextActivation s;
          act = \<lparr>act_uuid = u, responseQueue = createQueue s, resultQueue = createQueue s,
                 awaiting = True\<rparr>
      in (a, s\<lparr>activations := (activations s)(a := act),
              nextActivation := Suc a,
              provisionQueue := pushAndWait (provisionQueue s) a\<rparr>))"

definition getProvisioningResponse_resume ::
  "'b Collaborators \<Rightarrow> nat \<Rightarrow> 'b Server \<Rightarrow> (error + bytes) \<times> 'b Server" where
  "getProvisioningResponse_resume env a s =
     (let act = activations s a;
          (shifted, q) = shift (responseQueue act);
          s1 = s\<lparr>activations := (activations s)
                  (a := act\<lparr>responseQueue := q, awaiting := False\<rparr>)\<rparr>
      in case shifted of
           Inl e \<Rightarrow> (Inl e, s1)
         | Inr response \<Rightarrow>
             let query = parseURLQuery env (provisionURL response) in
             if query ''uuid'' \<noteq> Some (QString (act_uuid act))
             then (Inl (AssertionError ''UUID mismatch''), s1)
             else
               (case query ''pub_key'' of
                  Some (QString pub_key) \<Rightarrow>
                    if pub_key = []
                    then (Inl (Error ''Expected `pub_key` in provision URL''), s1)
                    else
                      (case deserializePublicKey env pub_key of
                         Inl e \<Rightarrow> (Inl e, s1)
                       | Inr clientKey \<Rightarrow>
                           let primary = primaries s1 (primaryDevice response);
                               identityKey = getIdentityKey env primary;
                               (issued, b) =
                                 getProvisioningCode env (base s1) (act_uuid act)
                                   (number (device primary));
                               s2 = s1\<lparr>base := b\<rparr>
                           in case issued of
                                Inl e \<Rightarrow> (Inl e, s2)
                              | Inr provisioningCode \<Rightarrow>
                                  (Inr (provisionEnvelope env (draws s2) identityKey primary
                                          provisioningCode clientKey),
                                   s2\<lparr>provisionResultQueueByCode :=
                                        (provisionResultQueueByCode s2)
                                          (provisioningCode \<mapsto> a),
                                      draws := Suc (draws s2)\<rparr>))
                | _ \<Rightarrow> (Inl (Error ''Expected `pub_key` in provision URL''), s1)))"

text \<open>
  The \<open>complete\<close> closure of the \<open>PendingProvision\<close> at address \<open>a\<close>, in its two parts:
  \<open>responseQueue.pushAndWait(response)\<close>, and then \<open>resultQueue.shift()\<close>, whose value
  is what the promise returned by \<open>complete\<close> resolves with.
\<close>

definition complete_push :: "nat \<Rightarrow> PendingProvisionResponse \<Rightarrow> 'b Server \<Rightarrow> 'b Server" where
  "complete_push a response s =
     (let act = activations s a in
      s\<lparr>activations := (activations s)
           (a := act\<lparr>responseQueue := pushAndWait (responseQueue act) response\<rparr>)\<rparr>)"

definition complete_result :: "nat \<Rightarrow> 'b Server \<Rightarrow> (error + Device) \<times> 'b Server" where
  "complete_result a s =
     (let act = activations s a;
          (r, q) = shift (resultQueue act)
      in (r, s\<lparr>activations := (activations s)(a := act\<lparr>resultQueue := q\<rparr>)\<rparr>))"

text \<open>
  \<^verbatim>\<open>
  public override async provisionDevice(number, password, provisioningCode,
                                        registrationId): Promise<Device> {
    const queue = this.provisionResultQueueByCode.get(provisioningCode);
    assert(queue !== undefined,
      `Missing provision result queue for code: ${provisioningCode}`);
    this.provisionResultQueueByCode.delete(provisioningCode);
    const device = await super.provisionDevice(
      number, password, provisioningCode, registrationId);
    const key = `${device.uuid}.${device.registrationId}`;
    this.provisionResultQueueByKey.set(key, queue);
    const primary = this.primaryDevices.get(device.uuid);
    primary?.addSecondaryDevice(device);
    return device;
  }
  \<close>
\<close>

definition provisionDevice ::
  "'b Collaborators \<Rightarrow> string \<Rightarrow> string \<Rightarrow> ProvisioningCode \<Rightarrow> RegistrationId \<Rightarrow> 'b Server
     \<Rightarrow> (error + Device) \<times> 'b Server" where
  "provisionDevice env num password provisioningCode rid s =
     (case provisionResultQueueByCode s provisioningCode of
        None \<Rightarrow>
          (Inl (AssertionError
                 (''Missing provision result queue for code: '' @ provisioningCode)), s)
      | Some queue \<Rightarrow>
          let s1 = s\<lparr>provisionResultQueueByCode :=
                       (provisionResultQueueByCode s)(provisioningCode := None)\<rparr>;
              (provisioned, b) =
                super_provisionDevice env (base s1) num password provisioningCode rid;
              s2 = s1\<lparr>base := b\<rparr>
          in case provisioned of
               Inl e \<Rightarrow> (Inl e, s2)
             | Inr dev \<Rightarrow>
                 let s3 = s2\<lparr>provisionResultQueueByKey :=
                              (provisionResultQueueByKey s2)(provisionKey dev \<mapsto> queue)\<rparr>
                 in (Inr dev,
                     case primaryDevices s3 (uuid dev) of
                       None \<Rightarrow> s3
                     | Some r \<Rightarrow>
                         let primary = primaries s3 r in
                         s3\<lparr>primaries := (primaries s3)
                              (r := primary\<lparr>secondaryDevices :=
                                              secondaryDevices primary @ [dev]\<rparr>)\<rparr>))"

subsection \<open>Incoming messages\<close>

text \<open>
  \<^verbatim>\<open>
  public async handleMessage(source: Device | undefined, envelopeType: EnvelopeType,
                             target: Device, encrypted: Buffer): Promise<void> {
    assert(source || envelopeType === EnvelopeType.SealedSender,
      'No source for non-sealed sender envelope');
    if (target.deviceId !== PRIMARY_DEVICE_ID) { return; }
    const primary = this.primaryDevices.get(target.uuid);
    if (!primary) { return; }
    await primary.handleEnvelope(source, envelopeType, encrypted);
  }
  \<close>
  \<open>handleEnvelope\<close> is the \<open>PrimaryDevice\<close>'s: the model files the envelope in the
  device's \<open>inbox\<close> and returns what the collaborator decides.
\<close>

definition handleEnvelope ::
  "'b Collaborators \<Rightarrow> PrimaryDevice \<Rightarrow> Device option \<Rightarrow> EnvelopeType \<Rightarrow> bytes
     \<Rightarrow> (error + unit) \<times> PrimaryDevice" where
  "handleEnvelope env primary source envelopeType encrypted =
     (envelopeResult env primary source envelopeType encrypted,
      primary\<lparr>inbox := inbox primary @ [(source, envelopeType, encrypted)]\<rparr>)"

definition handleMessage ::
  "'b Collaborators \<Rightarrow> Device option \<Rightarrow> EnvelopeType \<Rightarrow> Device \<Rightarrow> bytes \<Rightarrow> 'b Server
     \<Rightarrow> (error + unit) \<times> 'b Server" where
  "handleMessage env source envelopeType target encrypted s =
     (if \<not> (source \<noteq> None \<or> envelopeType = SealedSender)
      then (Inl (AssertionError ''No source for non-sealed sender envelope''), s)
      else if deviceId target \<noteq> PRIMARY_DEVICE_ID then (Inr (), s)
      else
        (case primaryDevices s (uuid target) of
           None \<Rightarrow> (Inr (), s)
         | Some r \<Rightarrow>
             let (outcome, primary) =
                   handleEnvelope env (primaries s r) source envelopeType encrypted
             in (outcome, s\<lparr>primaries := (primaries s)(r := primary)\<rparr>)))"

subsection \<open>Runs of the server\<close>

text \<open>
  JavaScript runs one piece of code at a time, and a method gives way to others only
  where it awaits. The calls below are the pieces that run without giving way to a
  call that touches the server's fields: the public and overridden methods, the two
  parts of \<open>getProvisioningResponse\<close>, and the two parts of the \<open>complete\<close> closure.
  An await of a base-class method or of a collaborator waits for neither the test nor
  a client and is taken to complete at once. \<open>Expire\<close> is the expiry of a
  \<open>pushAndWait\<close> on one of the queues that are filled that way; the method that was
  waiting ends with \<open>QueueTimeout\<close> then, whatever outcome the model gave it when it
  pushed. \<open>BaseServerCall\<close> is any inherited method, which sees the base state only (the
  fields of \<open>Server\<close> are private). \<open>step\<close> is \<open>None\<close> where a call cannot be made (it
  names an object that does not exist, or resumes a call that is not suspended) or does
  not return (\<open>generateNumber\<close> running forever). A run is a list of calls.
\<close>

datatype waitedQueue = ProvisionQueue | ResponseQueue nat | ResultQueue nat

fun expire :: "waitedQueue \<Rightarrow> nat \<Rightarrow> 'b Server \<Rightarrow> 'b Server" where
  "expire ProvisionQueue i s = s\<lparr>provisionQueue := invalidate i (provisionQueue s)\<rparr>"
| "expire (ResponseQueue a) i s =
     s\<lparr>activations := (activations s)
         (a := (activations s a)
            \<lparr>responseQueue := invalidate i (responseQueue (activations s a))\<rparr>)\<rparr>"
| "expire (ResultQueue a) i s =
     s\<lparr>activations := (activations s)
         (a := (activations s a)
            \<lparr>resultQueue := invalidate i (resultQueue (activations s a))\<rparr>)\<rparr>"

fun allocated :: "waitedQueue \<Rightarrow> 'b Server \<Rightarrow> bool" where
  "allocated ProvisionQueue s = True"
| "allocated (ResponseQueue a) s = (a < nextActivation s)"
| "allocated (ResultQueue a) s = (a < nextActivation s)"

datatype 'b call =
    Listen nat "string option"
  | Close
  | WaitForProvision
  | Complete_push nat PendingProvisionResponse
  | Complete_result nat
  | WaitForStorageManifest Device "int option"
  | OnStorageManifestUpdate Device int
  | CreatePrimaryDevice CreatePrimaryDeviceOptions
  | CreateSecondaryDevice nat
  | GetProvisioningResponse UUID
  | GetProvisioningResponse_resume nat
  | HandleMessage "Device option" EnvelopeType Device bytes
  | UpdateDeviceKeys Device DeviceKeys
  | ProvisionDevice string string ProvisioningCode RegistrationId
  | Expire waitedQueue nat
  | BaseServerCall "'b \<Rightarrow> 'b"

fun step :: "'b Collaborators \<Rightarrow> 'b call \<Rightarrow> 'b Server \<Rightarrow> 'b Server option" where
  "step env (Listen p h) s = Some (snd (listen env p h s))"
| "step env Close s = Some (snd (close s))"
| "step env WaitForProvision s = Some (snd (waitForProvision s))"
| "step env (Complete_push a response) s =
     (if a < nextActivation s \<and> primaryDevice response < nextPrimary s
      then Some (complete_push a response s) else None)"
| "step env (Complete_result a) s =
     (if a < nextActivation s then Some (snd (complete_result a s)) else None)"
| "step env (WaitForStorageManifest dev afterVersion) s =
     Some (snd (waitForStorageManifest dev afterVersion s))"
| "step env (OnStorageManifestUpdate dev ver) s = Some (onStorageManifestUpdate dev ver s)"
| "step env (CreatePrimaryDevice opts) s =
     (if list_all (\<lambda>r. r < nextPrimary s) (opt_contacts opts)
      then map_option snd (createPrimaryDevice env opts s) else None)"
| "step env (CreateSecondaryDevice r) s =
     (if r < nextPrimary s then Some (snd (createSecondaryDevice env r s)) else None)"
| "step env (GetProvisioningResponse u) s = Some (snd (getProvisioningResponse_begin u s))"
| "step env (GetProvisioningResponse_resume a) s =
     (if a < nextActivation s \<and> awaiting (activations s a)
      then Some (snd (getProvisioningResponse_resume env a s)) else None)"
| "step env (HandleMessage source envelopeType target encrypted) s =
     Some (snd (handleMessage env source envelopeType target encrypted s))"
| "step env (UpdateDeviceKeys dev keys) s = Some (snd (updateDeviceKeys env dev keys s))"
| "step env (ProvisionDevice num password provisioningCode rid) s =
     Some (snd (provisionDevice env num password provisioningCode rid s))"
| "step env (Expire q i) s = (if allocated q s then Some (expire q i s) else None)"
| "step env (BaseServerCall f) s = Some (s\<lparr>base := f (base s)\<rparr>)"

fun exec :: "'b Collaborators \<Rightarrow> 'b call list \<Rightarrow> 'b Server \<Rightarrow> 'b Server option" where
  "exec env [] s = Some s"
| "exec env (c # cs) s = (case step env c s of None \<Rightarrow> None | Some s' \<Rightarrow> exec env cs s')"

subsection \<open>Invariants of a run\<close>

text \<open>
  \<open>queuesConfigured\<close>: every queue the server holds was built with the configured
  timeout, and the two \<open>provisionResultQueue\<close> maps refer to queues that exist.
\<close>

definition queuesConfigured :: "'b Server \<Rightarrow> bool" where
  "queuesConfigured s \<longleftrightarrow>
     queueTimeout (provisionQueue s) = timeout (config s)
   \<and> (\<forall>a < nextActivation s.
        queueTimeout (responseQueue (activations s a)) = timeout (config s)
      \<and> queueTimeout (resultQueue (activations s a)) = timeout (config s))
   \<and> (\<forall>u q. manifestQueueByUuid s u = Some q \<longrightarrow> queueTimeout q = timeout (config s))
   \<and> (\<forall>c a. provisionResultQueueByCode s c = Some a \<longrightarrow> a < nextActivation s)
   \<and> (\<forall>k a. provisionResultQueueByKey s k = Some a \<longrightarrow> a < nextActivation s)"

text \<open>
  \<open>resultsAfterKeys\<close>: a device waits in a result queue only if \<open>updateDeviceKeys\<close> has
  been entered with it.
\<close>

definition resultsAfterKeys :: "'b Server \<Rightarrow> bool" where
  "resultsAfterKeys s \<longleftrightarrow>
     (\<forall>a D. D \<in> set (entries (resultQueue (activations s a))) \<longrightarrow> D \<in> set (keysUpdated s))"

text \<open>
  \<open>fixedPart\<close> collects the fields that only \<open>listen\<close>, \<open>close\<close>, \<open>generateNumber\<close> and
  \<open>updateDeviceKeys\<close> assign. \<open>stable s s'\<close> relates a state to a later one: the
  configuration is the same, no known number is forgotten, and a server that has a
  listener keeps it and its empty attachment.
\<close>

definition fixedPart :: "'b Server \<Rightarrow> StrictConfig \<times> string set \<times> Listener option \<times> AttachmentPointer option \<times> Device list" where
  "fixedPart s = (config s, knownNumbers s, https s, emptyAttachment s, keysUpdated s)"

definition stable :: "'b Server \<Rightarrow> 'b Server \<Rightarrow> bool" where
  "stable s s' \<longleftrightarrow>
     config s' = config s \<and> knownNumbers s \<subseteq> knownNumbers s'
   \<and> (https s \<noteq> None \<longrightarrow> https s' \<noteq> None \<and> emptyAttachment s' = emptyAttachment s)"

subsection \<open>An example server\<close>

text \<open>
  Concrete collaborators on which the model runs: the base state is a counter from
  which keys, identifiers and registration ids are made, and the number generator
  repeats each number four times, so that \<open>generateNumber\<close> has to loop.
\<close>

definition exampleDefaults :: Defaults where
  "exampleDefaults = \<lparr>TRUST_ROOT = (''priv'', ''pub''), ZK_PARAMS = (''secret'', ''public''),
     KEY_CERT = ([1], [2])\<rparr>"

definition exampleConfig :: Config where
  "exampleConfig = \<lparr>cfg_trustRoot = Omitted, cfg_zkParams = Omitted, cfg_https = Omitted,
     cfg_timeout = Omitted\<rparr>"

definition exampleDevice :: Device where
  "exampleDevice = \<lparr>uuid = ''aci'', pni = ''pni'', number = ''+1'', registrationId = 7,
     deviceId = 2\<rparr>"

definition exampleTarget :: Device where
  "exampleTarget = \<lparr>uuid = ''u'', pni = ''uu'', number = ''1'', registrationId = 3,
     deviceId = 1\<rparr>"

definition exampleOptions :: CreatePrimaryDeviceOptions where
  "exampleOptions = \<lparr>opt_profileName = ''Alice'', opt_contacts = []\<rparr>"

definition exampleCollaborators :: "nat Collaborators" where
  "exampleCollaborators =
     \<lparr>generateRandomE164 = (\<lambda>i. replicate (Suc (i div 4)) CHR ''1''),
      encryptAttachment = (\<lambda>i data. \<lparr>blob = i # data, key = [i], digest = [], plaintextSize = length data\<rparr>),
      attachmentToPointer = (\<lambda>k a. \<lparr>cdnKey = k, pointerKey = key a, pointerDigest = digest a,
         pointerSize = plaintextSize a\<rparr>),
      toContact = (\<lambda>primary. []),
      serializeContacts = concat,
      primaryInit = (\<lambda>primary. Inr ()),
      getIdentityKey = (\<lambda>primary. [3]),
      generateKeys = (\<lambda>primary dev. [4]),
      envelopeResult = (\<lambda>primary source envelopeType encrypted. Inr ()),
      parseURLQuery = (\<lambda>url k. if k = ''uuid'' then Some (QString ''ws'')
                                else if k = ''pub_key'' then Some (QString url) else None),
      deserializePublicKey = (\<lambda>pub_key. Inr [5]),
      provisionEnvelope = (\<lambda>i identityKey primary code clientKey. identityKey @ clientKey),
      serverAddress = (\<lambda>l. if closed l then NoAddress
                             else Info \<lparr>boundAddress = ''127.0.0.1'', family = ''IPv4'',
                                        boundPort = port l\<rparr>),
      storeAttachment = (\<lambda>b data. (replicate b CHR ''k'', Suc b)),
      generateUUID = (\<lambda>b. (replicate b CHR ''u'', Suc b)),
      generateRegistrationId = (\<lambda>b. (b, Suc b)),
      registerDevice = (\<lambda>b u p num rid.
         (Inr \<lparr>uuid = u, pni = p, number = num, registrationId = rid, deviceId = 1\<rparr>, b)),
      getProvisioningCode = (\<lambda>b u num. (Inr ''code'', b)),
      super_updateDeviceKeys = (\<lambda>b dev keys. (Inr (), b)),
      super_provisionDevice = (\<lambda>b num password code rid. (Inr exampleDevice, b))\<rparr>"

text \<open>
  A complete linking run: the server starts, a primary device is created, a client asks
  for provisioning, the test takes the pending provision and completes it, the client
  registers the new device with the code and uploads its keys.
\<close>

definition exampleRun :: "nat call list" where
  "exampleRun =
     [Listen 0 None,
      CreatePrimaryDevice \<lparr>opt_profileName = ''Alice'', opt_contacts = []\<rparr>,
      GetProvisioningResponse ''ws'',
      WaitForProvision,
      Complete_push 0 \<lparr>provisionURL = ''key'', primaryDevice = 0\<rparr>,
      GetProvisioningResponse_resume 0,
      ProvisionDevice ''+1'' ''password'' ''code'' 7,
      UpdateDeviceKeys exampleDevice [4]]"

definition exampleAnswered :: "nat call list" where
  "exampleAnswered =
     [Listen 0 None,
      CreatePrimaryDevice \<lparr>opt_profileName = ''Alice'', opt_contacts = []\<rparr>,
      GetProvisioningResponse ''ws'',
      WaitForProvision,
      Complete_push 0 \<lparr>provisionURL = ''key'', primaryDevice = 0\<rparr>]"

definition examplePrimaryUp :: "nat call list" where
  "examplePrimaryUp =
     [Listen 0 None, CreatePrimaryDevice \<lparr>opt_profileName = ''Alice'', opt_contacts = []\<rparr>]"

text \<open>
  A configuration that gives a timeout of one second, and a run that leaves a queue in
  each of the three maps: a first attempt whose device is registered, a second attempt
  whose code is issued, and a storage manifest update.
\<close>

definition exampleShortTimeout :: Config where
  "exampleShortTimeout = exampleConfig\<lparr>cfg_timeout := Given 1000\<rparr>"

definition exampleQueues :: "nat call list" where
  "exampleQueues =
     [Listen 0 None,
      CreatePrimaryDevice \<lparr>opt_profileName = ''Alice'', opt_contacts = []\<rparr>,
      GetProvisioningResponse ''ws'',
      WaitForProvision,
      Complete_push 0 \<lparr>provisionURL = ''key'', primaryDevice = 0\<rparr>,
      GetProvisioningResponse_resume 0,
      ProvisionDevice ''+1'' ''password'' ''code'' 7,
      GetProvisioningResponse ''ws'',
      WaitForProvision,
      Complete_push 1 \<lparr>provisionURL = ''key'', primaryDevice = 0\<rparr>,
      GetProvisioningResponse_resume 1,
      OnStorageManifestUpdate exampleDevice 1]"

definition exampleStarted :: "nat Server" where
  "exampleStarted = snd (listen exampleCollaborators 0 None (constructor exampleDefaults exampleConfig 0))"

text \<open>
  Two servers of one process: each is constructed on its own and listens on its own
  port. \<open>generateRandomE164\<close> draws at random, so it can hand the same number to both;
  here it yields the same number at every draw.
\<close>

definition repeatingCollaborators :: "nat Collaborators" where
  "repeatingCollaborators = exampleCollaborators\<lparr>generateRandomE164 := (\<lambda>i. ''+15550100'')\<rparr>"

definition firstServer :: "nat Server" where
  "firstServer =
     snd (listen repeatingCollaborators 8000 None (constructor exampleDefaults exampleConfig 0))"

definition secondServer :: "nat Server" where
  "secondServer =
     snd (listen repeatingCollaborators 8001 None (constructor exampleDefaults exampleConfig 0))"

definition exampleManifests :: "nat Server" where
  "exampleManifests =
     onStorageManifestUpdate exampleDevice 3
       (onStorageManifestUpdate exampleDevice 2
          (onStorageManifestUpdate exampleDevice 1
             (constructor exampleDefaults exampleConfig 0)))"

section \<open>Properties of the schemas\<close>

lemma and_then_Inr:
  "and_then r f = Inr y \<longleftrightarrow> (\<exists>x. r = Inr x \<and> f x = Inr y)"
  by (cases r) (simp_all add: and_then_def)


lemma z_literal_Inr: "z_literal c v = Inr x \<longleftrightarrow> v = JNumber c \<and> x = c"
  by (cases v) (auto simp: z_literal_def)


lemma parse_elements_unknown: "parse_elements z_unknown vs = Inr vs"
  by (induction vs) (simp_all add: and_then_def z_unknown_def)

lemma array_Inr:
  "array t v = Inr xs \<longleftrightarrow> (\<exists>vs. v = JArray vs \<and> parse_elements t vs = Inr xs)"
  by (cases v) (simp_all add: array_def)

lemma array_min_Inr:
  "array_min n t v = Inr xs \<longleftrightarrow> t v = Inr xs \<and> n \<le> length xs"
  by (auto simp: array_min_def and_then_Inr split: if_splits)


lemma z_object_Inr:
  "z_object shape v = Inr x \<longleftrightarrow>
     (\<exists>kvs. v = JObject kvs \<and> shape kvs = Inr x)
     \<or> (\<exists>bs. v = JUint8Array bs \<and> shape [] = Inr x)"
  by (cases v) (simp_all add: z_object_def)


lemma GroupStateSchema_Inr:
  "GroupStateSchema body = Inr g \<longleftrightarrow>
     (\<exists>kvs pk ac ms. body = JObject kvs
        \<and> property kvs ''publicKey'' = JUint8Array pk
        \<and> property kvs ''version'' = JNumber 0
        \<and> AccessControlSchema (property kvs ''accessControl'') = Inr ac
        \<and> property kvs ''members'' = JArray ms \<and> 1 \<le> length ms
        \<and> g = \<lparr>publicKey = pk, version = 0, accessControl = ac, members = ms\<rparr>)"
proof -
  have pk: "z_instanceof_Uint8Array v = Inr x \<longleftrightarrow> v = JUint8Array x" for v x
    by (cases v) (simp_all add: z_instanceof_Uint8Array_def)
  have none: "z_instanceof_Uint8Array (property [] k) \<noteq> Inr x" for k x
    by (simp add: z_instanceof_Uint8Array_def property_def)
  show ?thesis
    unfolding GroupStateSchema_def z_object_Inr and_then_Inr z_literal_Inr
      array_min_Inr array_Inr parse_elements_unknown
    using none by (auto simp: pk)
qed

subsection \<open>Username reservation: between 1 and 20 hashes\<close>




subsection \<open>Group creation: version 0 and at least one member\<close>

text \<open>
  Claim C5: parsing a group-creation body succeeds only if the submitted group state has
  version exactly 0 and a non-empty members list; any other version value, and an empty
  members list, is rejected, and the parsed group state has version 0.
\<close>

theorem GroupStateSchema_only_version_0:
  "GroupStateSchema body = Inr g \<Longrightarrow>
     (\<exists>kvs ms. body = JObject kvs \<and> property kvs ''version'' = JNumber 0
        \<and> property kvs ''members'' = JArray ms \<and> ms \<noteq> [])
     \<and> version g = 0 \<and> members g \<noteq> []"
  unfolding GroupStateSchema_Inr by auto

theorem GroupStateSchema_only_version_0_witness:
  "GroupStateSchema (JObject
      [(''publicKey'', JUint8Array [1, 2, 3]), (''version'', JNumber 0),
       (''accessControl'', JObject [(''attributes'', JNumber 2), (''members'', JNumber 2),
          (''addFromInviteLink'', JNumber 4)]),
       (''members'', JArray [JObject []])])
     = Inr \<lparr>publicKey = [1, 2, 3], version = 0,
         accessControl = \<lparr>attributes = 2, ac_members = 2, addFromInviteLink = 4\<rparr>,
         members = [JObject []]\<rparr>
   \<and> version \<lparr>publicKey = [1, 2, 3], version = 0,
         accessControl = \<lparr>attributes = 2, ac_members = 2, addFromInviteLink = 4\<rparr>,
         members = [JObject []]\<rparr> = 0"
proof -
  have parsed: "GroupStateSchema (JObject
      [(''publicKey'', JUint8Array [1, 2, 3]), (''version'', JNumber 0),
       (''accessControl'', JObject [(''attributes'', JNumber 2), (''members'', JNumber 2),
          (''addFromInviteLink'', JNumber 4)]),
       (''members'', JArray [JObject []])])
     = Inr \<lparr>publicKey = [1, 2, 3], version = 0,
         accessControl = \<lparr>attributes = 2, ac_members = 2, addFromInviteLink = 4\<rparr>,
         members = [JObject []]\<rparr>"
    by (simp add: GroupStateSchema_def AccessControlSchema_def z_object_def property_def
        z_instanceof_Uint8Array_def z_literal_def z_number_def array_min_def array_def
        z_unknown_def and_then_def)
  from GroupStateSchema_only_version_0 [OF parsed] parsed show ?thesis by simp
qed

section \<open>Properties of the server\<close>

subsection \<open>What each call leaves unchanged\<close>

lemma shift_timeout: "shift q = (r, q') \<Longrightarrow> queueTimeout q' = queueTimeout q"
  by (auto simp: shift_def split: list.splits)

lemma shift_entries: "shift q = (r, q') \<Longrightarrow> D \<in> set (entries q') \<Longrightarrow> D \<in> set (entries q)"
  by (auto simp: shift_def split: list.splits)

lemma shiftUntilAfter_Nil:
  "entries q = [] \<Longrightarrow> shiftUntilAfter afterVersion q = (Inl QueueTimeout, q)"
  by (simp add: shiftUntilAfter.simps [of afterVersion q] shift_def)

lemma shiftUntilAfter_Cons:
  "entries q = x # xs \<Longrightarrow>
     shiftUntilAfter (Some a) q =
       (if x \<le> a then shiftUntilAfter (Some a) (q\<lparr>entries := xs\<rparr>)
        else (Inr x, q\<lparr>entries := xs\<rparr>))"
  by (simp add: shiftUntilAfter.simps [of "Some a" q] shift_def)

lemma shiftUntilAfter_None:
  "shiftUntilAfter None q = shift q"
  by (simp add: shiftUntilAfter.simps [of None q] split: prod.splits sum.splits)

lemma shiftUntilAfter_timeout:
  "shiftUntilAfter afterVersion q = (r, q') \<Longrightarrow> queueTimeout q' = queueTimeout q"
proof (induction xs \<equiv> "entries q" arbitrary: q)
  case Nil
  from Nil.hyps [symmetric] Nil.prems show ?case by (simp add: shiftUntilAfter_Nil)
next
  case (Cons x xs)
  from Cons.hyps(2) have q: "entries q = x # xs" by simp
  show ?case
  proof (cases afterVersion)
    case None
    with Cons.prems show ?thesis by (simp add: shiftUntilAfter_None shift_timeout)
  next
    case (Some a)
    show ?thesis
    proof (cases "x \<le> a")
      case True
      with q Some Cons.prems have "shiftUntilAfter afterVersion (q\<lparr>entries := xs\<rparr>) = (r, q')"
        by (simp add: shiftUntilAfter_Cons)
      then have "queueTimeout q' = queueTimeout (q\<lparr>entries := xs\<rparr>)"
        by (intro Cons.hyps(1)) simp_all
      then show ?thesis by simp
    next
      case False
      with q Some Cons.prems show ?thesis by (auto simp: shiftUntilAfter_Cons)
    qed
  qed
qed

lemma generateNumber_state:
  "generateNumber env s = Some (num, s') \<Longrightarrow>
     \<exists>i. s' = s\<lparr>knownNumbers := insert num (knownNumbers s), draws := i\<rparr>"
  by (auto simp: generateNumber_def split: option.splits)

lemma registerNewPrimary_frame:
  "snd (registerNewPrimary env opts num s)
     = s\<lparr>base := base (snd (registerNewPrimary env opts num s)),
         draws := draws (snd (registerNewPrimary env opts num s)),
         primaries := primaries (snd (registerNewPrimary env opts num s)),
         nextPrimary := nextPrimary (snd (registerNewPrimary env opts num s)),
         primaryDevices := primaryDevices (snd (registerNewPrimary env opts num s))\<rparr>"
  by (simp add: registerNewPrimary_def Let_def split: prod.splits sum.splits option.splits)

lemma handleMessage_frame:
  "snd (handleMessage env source envelopeType target encrypted s)
     = s\<lparr>primaries := primaries (snd (handleMessage env source envelopeType target encrypted s))\<rparr>"
  by (simp add: handleMessage_def Let_def split: prod.splits option.splits)

lemma provisionDevice_frame:
  "snd (provisionDevice env num password code rid s)
     = s\<lparr>base := base (snd (provisionDevice env num password code rid s)),
         primaries := primaries (snd (provisionDevice env num password code rid s)),
         provisionResultQueueByCode :=
           provisionResultQueueByCode (snd (provisionDevice env num password code rid s)),
         provisionResultQueueByKey :=
           provisionResultQueueByKey (snd (provisionDevice env num password code rid s))\<rparr>"
  by (simp add: provisionDevice_def Let_def split: prod.splits sum.splits option.splits)

lemma provisionDevice_byCode:
  "provisionResultQueueByCode (snd (provisionDevice env num password code rid s))
     = (provisionResultQueueByCode s)(code := None)"
  by (auto simp: provisionDevice_def Let_def split: prod.splits sum.splits option.splits)

lemma provisionDevice_byKey:
  "provisionResultQueueByKey (snd (provisionDevice env num password code rid s))
     = provisionResultQueueByKey s
   \<or> (\<exists>q dev. provisionResultQueueByCode s code = Some q \<and>
         provisionResultQueueByKey (snd (provisionDevice env num password code rid s))
           = (provisionResultQueueByKey s)(provisionKey dev \<mapsto> q))"
  by (auto simp: provisionDevice_def Let_def split: prod.splits sum.splits option.splits)

lemma updateDeviceKeys_frame:
  "snd (updateDeviceKeys env dev keys s)
     = s\<lparr>base := base (snd (updateDeviceKeys env dev keys s)),
         activations := activations (snd (updateDeviceKeys env dev keys s)),
         provisionResultQueueByKey :=
           provisionResultQueueByKey (snd (updateDeviceKeys env dev keys s)),
         keysUpdated := keysUpdated s @ [dev]\<rparr>"
  by (simp add: updateDeviceKeys_def Let_def split: prod.splits sum.splits option.splits)

lemma updateDeviceKeys_activations:
  "activations (snd (updateDeviceKeys env dev keys s)) = activations s
   \<or> (\<exists>a. provisionResultQueueByKey s (provisionKey dev) = Some a \<and>
         activations (snd (updateDeviceKeys env dev keys s))
           = (activations s)
               (a := (activations s a)
                  \<lparr>resultQueue := pushAndWait (resultQueue (activations s a)) dev\<rparr>))"
  by (auto simp: updateDeviceKeys_def Let_def split: prod.splits sum.splits option.splits)

lemma createSecondaryDevice_state:
  "(\<exists>b. snd (createSecondaryDevice env r s) = s\<lparr>base := b\<rparr>)
   \<or> (\<exists>b dev keys. snd (createSecondaryDevice env r s)
          = snd (updateDeviceKeys env dev keys (s\<lparr>base := b\<rparr>)))
   \<or> (\<exists>b dev keys f. snd (createSecondaryDevice env r s)
          = (snd (updateDeviceKeys env dev keys (s\<lparr>base := b\<rparr>)))\<lparr>primaries := f\<rparr>)"
proof -
  obtain rid b1 where g: "generateRegistrationId env (base s) = (rid, b1)"
    by (cases "generateRegistrationId env (base s)")
  obtain registered b2 where
    reg: "registerDevice env b1 (uuid (device (primaries s r))) (pni (device (primaries s r)))
            (number (device (primaries s r))) rid = (registered, b2)"
    by (cases "registerDevice env b1 (uuid (device (primaries s r)))
            (pni (device (primaries s r))) (number (device (primaries s r))) rid")
  show ?thesis
  proof (cases registered)
    case (Inl e)
    with g reg have "snd (createSecondaryDevice env r s) = s\<lparr>base := b2\<rparr>"
      by (simp add: createSecondaryDevice_def)
    then show ?thesis by blast
  next
    case (Inr dev)
    let ?s1 = "s\<lparr>base := b2\<rparr>"
    let ?keys = "generateKeys env (primaries ?s1 r) dev"
    obtain res s2 where upd: "updateDeviceKeys env dev ?keys ?s1 = (res, s2)"
      by (cases "updateDeviceKeys env dev ?keys ?s1")
    show ?thesis
    proof (cases res)
      case (Inl e)
      with g reg Inr upd have "snd (createSecondaryDevice env r s)
          = snd (updateDeviceKeys env dev ?keys ?s1)"
        by (simp add: createSecondaryDevice_def Let_def)
      then show ?thesis by blast
    next
      case (Inr u)
      with g reg \<open>registered = Inr dev\<close> upd
      have "snd (createSecondaryDevice env r s)
          = (snd (updateDeviceKeys env dev ?keys ?s1))
              \<lparr>primaries := (primaries s2)
                 (r := (primaries s2 r)\<lparr>secondaryDevices :=
                          secondaryDevices (primaries s2 r) @ [dev]\<rparr>)\<rparr>"
        by (simp add: createSecondaryDevice_def Let_def)
      then show ?thesis by blast
    qed
  qed
qed

lemma getProvisioningResponse_resume_frame:
  "snd (getProvisioningResponse_resume env a s)
     = s\<lparr>base := base (snd (getProvisioningResponse_resume env a s)),
         activations := activations (snd (getProvisioningResponse_resume env a s)),
         provisionResultQueueByCode :=
           provisionResultQueueByCode (snd (getProvisioningResponse_resume env a s)),
         draws := draws (snd (getProvisioningResponse_resume env a s))\<rparr>"
  by (simp add: getProvisioningResponse_resume_def Let_def
      split: prod.splits sum.splits option.splits QueryValue.splits)

lemma getProvisioningResponse_resume_activations:
  "activations (snd (getProvisioningResponse_resume env a s))
     = (activations s)
         (a := (activations s a)
            \<lparr>responseQueue := snd (shift (responseQueue (activations s a))),
             awaiting := False\<rparr>)"
  by (simp add: getProvisioningResponse_resume_def Let_def
      split: prod.splits sum.splits option.splits QueryValue.splits)

lemma getProvisioningResponse_resume_byCode:
  "provisionResultQueueByCode (snd (getProvisioningResponse_resume env a s))
     = provisionResultQueueByCode s
   \<or> (\<exists>code. provisionResultQueueByCode (snd (getProvisioningResponse_resume env a s))
         = (provisionResultQueueByCode s)(code \<mapsto> a))"
  by (auto simp: getProvisioningResponse_resume_def Let_def
      split: prod.splits sum.splits option.splits QueryValue.splits)

lemma fixedPart_simps [simp]:
  "fixedPart (s\<lparr>base := b\<rparr>) = fixedPart s"
  "fixedPart (s\<lparr>primaries := f\<rparr>) = fixedPart s"
  "fixedPart (s\<lparr>nextPrimary := n\<rparr>) = fixedPart s"
  "fixedPart (s\<lparr>primaryDevices := pd\<rparr>) = fixedPart s"
  "fixedPart (s\<lparr>provisionQueue := pq\<rparr>) = fixedPart s"
  "fixedPart (s\<lparr>activations := acts\<rparr>) = fixedPart s"
  "fixedPart (s\<lparr>nextActivation := n\<rparr>) = fixedPart s"
  "fixedPart (s\<lparr>provisionResultQueueByCode := bc\<rparr>) = fixedPart s"
  "fixedPart (s\<lparr>provisionResultQueueByKey := bk\<rparr>) = fixedPart s"
  "fixedPart (s\<lparr>manifestQueueByUuid := mq\<rparr>) = fixedPart s"
  "fixedPart (s\<lparr>draws := i\<rparr>) = fixedPart s"
  by (simp_all add: fixedPart_def)

lemma invalidate_timeout [simp]: "queueTimeout (invalidate i q) = queueTimeout q"
  by (simp add: invalidate_def)

lemma invalidate_entries: "D \<in> set (entries (invalidate i q)) \<Longrightarrow> D \<in> set (entries q)"
  by (auto simp: invalidate_def dest: in_set_takeD in_set_dropD)

lemma expire_fixed: "fixedPart (expire q i s) = fixedPart s"
  by (cases q) simp_all

lemma waitForProvision_fixed: "fixedPart (snd (waitForProvision s)) = fixedPart s"
  by (simp add: waitForProvision_def split: prod.splits)

lemma complete_push_fixed: "fixedPart (complete_push a response s) = fixedPart s"
  by (simp add: complete_push_def Let_def)

lemma complete_result_fixed: "fixedPart (snd (complete_result a s)) = fixedPart s"
  by (simp add: complete_result_def Let_def split: prod.splits)

lemma waitForStorageManifest_fixed:
  "fixedPart (snd (waitForStorageManifest dev afterVersion s)) = fixedPart s"
  by (simp add: waitForStorageManifest_def split: prod.splits)

lemma onStorageManifestUpdate_fixed:
  "fixedPart (onStorageManifestUpdate dev ver s) = fixedPart s"
  by (simp add: onStorageManifestUpdate_def)

lemma registerNewPrimary_fixed:
  "fixedPart (snd (registerNewPrimary env opts num s)) = fixedPart s"
  by (subst registerNewPrimary_frame) simp

lemma getProvisioningResponse_begin_fixed:
  "fixedPart (snd (getProvisioningResponse_begin u s)) = fixedPart s"
  by (simp add: getProvisioningResponse_begin_def Let_def)

lemma getProvisioningResponse_resume_fixed:
  "fixedPart (snd (getProvisioningResponse_resume env a s)) = fixedPart s"
  by (subst getProvisioningResponse_resume_frame) simp

lemma handleMessage_fixed:
  "fixedPart (snd (handleMessage env source envelopeType target encrypted s)) = fixedPart s"
  by (subst handleMessage_frame) simp

lemma provisionDevice_fixed:
  "fixedPart (snd (provisionDevice env num password code rid s)) = fixedPart s"
  by (subst provisionDevice_frame) simp

subsection \<open>Queues keep the configured timeout\<close>

lemma queuesConfigured_primaries [simp]:
  "queuesConfigured (s\<lparr>primaries := f\<rparr>) = queuesConfigured s"
  by (simp add: queuesConfigured_def)

lemma queuesConfigured_base [simp]:
  "queuesConfigured (s\<lparr>base := b\<rparr>) = queuesConfigured s"
  by (simp add: queuesConfigured_def)

lemma expire_configured: "queuesConfigured s \<Longrightarrow> queuesConfigured (expire q i s)"
  by (cases q) (simp_all add: queuesConfigured_def)

lemma listen_configured:
  "queuesConfigured s \<Longrightarrow> queuesConfigured (snd (listen env p h s))"
  by (simp add: listen_def queuesConfigured_def Let_def split: prod.splits)

lemma close_configured:
  "queuesConfigured s \<Longrightarrow> queuesConfigured (snd (close s))"
  by (simp add: close_def queuesConfigured_def split: option.splits)

lemma waitForProvision_configured:
  "queuesConfigured s \<Longrightarrow> queuesConfigured (snd (waitForProvision s))"
  by (auto simp: waitForProvision_def queuesConfigured_def Let_def shift_timeout
      split: prod.splits)

lemma complete_push_configured:
  "queuesConfigured s \<Longrightarrow> queuesConfigured (complete_push a response s)"
  by (simp add: complete_push_def queuesConfigured_def Let_def pushAndWait_def)

lemma complete_result_configured:
  "queuesConfigured s \<Longrightarrow> queuesConfigured (snd (complete_result a s))"
  by (auto simp: complete_result_def queuesConfigured_def Let_def shift_timeout
      split: prod.splits)

lemma manifestQueue_timeout:
  "queuesConfigured s \<Longrightarrow> queueTimeout (manifestQueue s u) = timeout (config s)"
  by (auto simp: manifestQueue_def queuesConfigured_def createQueue_def newPromiseQueue_def
      split: option.splits)

lemma waitForStorageManifest_configured:
  "queuesConfigured s \<Longrightarrow> queuesConfigured (snd (waitForStorageManifest dev afterVersion s))"
  using manifestQueue_timeout [of s "uuid dev"]
  by (auto simp: waitForStorageManifest_def queuesConfigured_def
      dest: shiftUntilAfter_timeout split: prod.splits)

lemma onStorageManifestUpdate_configured:
  "queuesConfigured s \<Longrightarrow> queuesConfigured (onStorageManifestUpdate dev ver s)"
  using manifestQueue_timeout [of s "uuid dev"]
  by (auto simp: onStorageManifestUpdate_def queuesConfigured_def push_def)

lemma generateNumber_configured:
  "queuesConfigured s \<Longrightarrow> generateNumber env s = Some (num, s') \<Longrightarrow> queuesConfigured s'"
  by (auto simp: generateNumber_def queuesConfigured_def split: option.splits prod.splits)

lemma registerNewPrimary_configured:
  "queuesConfigured s \<Longrightarrow> queuesConfigured (snd (registerNewPrimary env opts num s))"
  by (simp add: registerNewPrimary_def queuesConfigured_def Let_def
      split: prod.splits sum.splits option.splits)

lemma createPrimaryDevice_configured:
  "queuesConfigured s \<Longrightarrow> createPrimaryDevice env opts s = Some (r, s') \<Longrightarrow> queuesConfigured s'"
  using registerNewPrimary_configured [of _ env opts] generateNumber_configured [of s env]
  by (auto simp: createPrimaryDevice_def split: option.splits prod.splits) (metis snd_conv)

lemma updateDeviceKeys_configured:
  "queuesConfigured s \<Longrightarrow> queuesConfigured (snd (updateDeviceKeys env dev keys s))"
  by (auto simp: updateDeviceKeys_def queuesConfigured_def Let_def pushAndWait_def
      split: prod.splits sum.splits option.splits)

lemma createSecondaryDevice_configured:
  assumes "queuesConfigured s"
  shows "queuesConfigured (snd (createSecondaryDevice env r s))"
  using createSecondaryDevice_state [of env r s] assms
  by (auto simp: updateDeviceKeys_configured)

lemma getProvisioningResponse_begin_configured:
  "queuesConfigured s \<Longrightarrow> queuesConfigured (snd (getProvisioningResponse_begin u s))"
  by (auto simp: getProvisioningResponse_begin_def queuesConfigured_def Let_def
      pushAndWait_def createQueue_def newPromiseQueue_def less_Suc_eq)

lemma getProvisioningResponse_resume_configured:
  assumes "queuesConfigured s" "a < nextActivation s"
  shows "queuesConfigured (snd (getProvisioningResponse_resume env a s))"
proof -
  let ?s' = "snd (getProvisioningResponse_resume env a s)"
  have q: "queueTimeout (snd (shift (responseQueue (activations s a))))
      = queueTimeout (responseQueue (activations s a))"
    by (rule shift_timeout [of _ "fst (shift (responseQueue (activations s a)))"]) simp
  have "queuesConfigured
     (s\<lparr>activations := activations ?s',
        provisionResultQueueByCode := provisionResultQueueByCode ?s'\<rparr>)"
    using assms q getProvisioningResponse_resume_byCode [of env a s]
    by (auto simp: queuesConfigured_def getProvisioningResponse_resume_activations
        split: if_splits)
  then show ?thesis
    by (subst getProvisioningResponse_resume_frame) (simp add: queuesConfigured_def)
qed

lemma handleMessage_configured:
  "queuesConfigured s \<Longrightarrow>
     queuesConfigured (snd (handleMessage env source envelopeType target encrypted s))"
  by (subst handleMessage_frame) simp

lemma provisionDevice_configured:
  assumes "queuesConfigured s"
  shows "queuesConfigured (snd (provisionDevice env num password code rid s))"
proof -
  let ?s' = "snd (provisionDevice env num password code rid s)"
  have "queuesConfigured
     (s\<lparr>provisionResultQueueByCode := provisionResultQueueByCode ?s',
        provisionResultQueueByKey := provisionResultQueueByKey ?s'\<rparr>)"
    using assms provisionDevice_byKey [of env num password code rid s]
    by (auto simp: queuesConfigured_def provisionDevice_byCode split: if_splits)
  then show ?thesis
    by (subst provisionDevice_frame) (simp add: queuesConfigured_def)
qed

lemma step_configured:
  assumes "queuesConfigured s" "step env c s = Some s'"
  shows "queuesConfigured s'"
proof (cases c)
  case (CreatePrimaryDevice opts)
  with assms show ?thesis
    by (auto split: if_splits dest: createPrimaryDevice_configured)
next
  case (GetProvisioningResponse_resume a)
  with assms show ?thesis
    by (auto split: if_splits simp: getProvisioningResponse_resume_configured)
next
  case (BaseServerCall f)
  with assms show ?thesis by auto
qed (use assms in \<open>auto split: if_splits
      simp: expire_configured listen_configured close_configured waitForProvision_configured
        complete_push_configured complete_result_configured
        waitForStorageManifest_configured onStorageManifestUpdate_configured
        createSecondaryDevice_configured getProvisioningResponse_begin_configured
        handleMessage_configured updateDeviceKeys_configured provisionDevice_configured\<close>)

lemma exec_configured:
  "queuesConfigured s \<Longrightarrow> exec env cs s = Some s' \<Longrightarrow> queuesConfigured s'"
  by (induction cs arbitrary: s) (auto split: option.splits dest: step_configured)

lemma constructor_configured: "queuesConfigured (constructor d cfg b)"
  by (simp add: queuesConfigured_def constructor_def Let_def newPromiseQueue_def)

subsection \<open>Result queues hold devices whose keys were updated\<close>

lemma resultsAfterKeys_simps [simp]:
  "resultsAfterKeys (s\<lparr>base := b\<rparr>) = resultsAfterKeys s"
  "resultsAfterKeys (s\<lparr>primaries := f\<rparr>) = resultsAfterKeys s"
  "resultsAfterKeys (s\<lparr>nextPrimary := n\<rparr>) = resultsAfterKeys s"
  "resultsAfterKeys (s\<lparr>primaryDevices := pd\<rparr>) = resultsAfterKeys s"
  "resultsAfterKeys (s\<lparr>provisionQueue := pq\<rparr>) = resultsAfterKeys s"
  "resultsAfterKeys (s\<lparr>nextActivation := n\<rparr>) = resultsAfterKeys s"
  "resultsAfterKeys (s\<lparr>provisionResultQueueByCode := bc\<rparr>) = resultsAfterKeys s"
  "resultsAfterKeys (s\<lparr>provisionResultQueueByKey := bk\<rparr>) = resultsAfterKeys s"
  "resultsAfterKeys (s\<lparr>manifestQueueByUuid := mq\<rparr>) = resultsAfterKeys s"
  "resultsAfterKeys (s\<lparr>draws := i\<rparr>) = resultsAfterKeys s"
  "resultsAfterKeys (s\<lparr>knownNumbers := kn\<rparr>) = resultsAfterKeys s"
  "resultsAfterKeys (s\<lparr>https := l\<rparr>) = resultsAfterKeys s"
  "resultsAfterKeys (s\<lparr>emptyAttachment := e\<rparr>) = resultsAfterKeys s"
  by (simp_all add: resultsAfterKeys_def)

lemma expire_resultsAfterKeys: "resultsAfterKeys s \<Longrightarrow> resultsAfterKeys (expire q i s)"
  by (cases q) (auto simp: resultsAfterKeys_def dest: invalidate_entries)

lemma listen_resultsAfterKeys:
  "resultsAfterKeys s \<Longrightarrow> resultsAfterKeys (snd (listen env p h s))"
  by (simp add: listen_def Let_def split: prod.splits)

lemma close_resultsAfterKeys:
  "resultsAfterKeys s \<Longrightarrow> resultsAfterKeys (snd (close s))"
  by (simp add: close_def split: option.splits)

lemma waitForProvision_resultsAfterKeys:
  "resultsAfterKeys s \<Longrightarrow> resultsAfterKeys (snd (waitForProvision s))"
  by (simp add: waitForProvision_def split: prod.splits)

lemma complete_push_resultsAfterKeys:
  "resultsAfterKeys s \<Longrightarrow> resultsAfterKeys (complete_push a response s)"
  by (simp add: complete_push_def Let_def resultsAfterKeys_def)

lemma complete_result_resultsAfterKeys:
  "resultsAfterKeys s \<Longrightarrow> resultsAfterKeys (snd (complete_result a s))"
  by (auto simp: complete_result_def Let_def resultsAfterKeys_def split: prod.splits
      dest: shift_entries)

lemma waitForStorageManifest_resultsAfterKeys:
  "resultsAfterKeys s \<Longrightarrow> resultsAfterKeys (snd (waitForStorageManifest dev afterVersion s))"
  by (simp add: waitForStorageManifest_def split: prod.splits)

lemma onStorageManifestUpdate_resultsAfterKeys:
  "resultsAfterKeys s \<Longrightarrow> resultsAfterKeys (onStorageManifestUpdate dev ver s)"
  by (simp add: onStorageManifestUpdate_def)

lemma generateNumber_resultsAfterKeys:
  "resultsAfterKeys s \<Longrightarrow> generateNumber env s = Some (num, s') \<Longrightarrow> resultsAfterKeys s'"
  by (auto dest: generateNumber_state)

lemma registerNewPrimary_resultsAfterKeys:
  "resultsAfterKeys s \<Longrightarrow> resultsAfterKeys (snd (registerNewPrimary env opts num s))"
  by (subst registerNewPrimary_frame) (simp add: resultsAfterKeys_def)

lemma createPrimaryDevice_resultsAfterKeys:
  "resultsAfterKeys s \<Longrightarrow> createPrimaryDevice env opts s = Some (r, s') \<Longrightarrow>
     resultsAfterKeys s'"
  using registerNewPrimary_resultsAfterKeys [of _ env opts]
    generateNumber_resultsAfterKeys [of s env]
  by (auto simp: createPrimaryDevice_def split: option.splits prod.splits) (metis snd_conv)

lemma updateDeviceKeys_resultsAfterKeys:
  assumes "resultsAfterKeys s"
  shows "resultsAfterKeys (snd (updateDeviceKeys env dev keys s))"
proof -
  let ?s' = "snd (updateDeviceKeys env dev keys s)"
  have "resultsAfterKeys (s\<lparr>activations := activations ?s',
      keysUpdated := keysUpdated s @ [dev]\<rparr>)"
    using assms updateDeviceKeys_activations [of env dev keys s]
    by (fastforce simp: resultsAfterKeys_def pushAndWait_def split: if_splits)
  then show ?thesis
    by (subst updateDeviceKeys_frame) (simp add: resultsAfterKeys_def)
qed

lemma createSecondaryDevice_resultsAfterKeys:
  assumes "resultsAfterKeys s"
  shows "resultsAfterKeys (snd (createSecondaryDevice env r s))"
  using createSecondaryDevice_state [of env r s] assms
  by (auto simp: updateDeviceKeys_resultsAfterKeys)

lemma getProvisioningResponse_begin_resultsAfterKeys:
  "resultsAfterKeys s \<Longrightarrow> resultsAfterKeys (snd (getProvisioningResponse_begin u s))"
  by (auto simp: getProvisioningResponse_begin_def Let_def resultsAfterKeys_def
      createQueue_def newPromiseQueue_def)

lemma getProvisioningResponse_resume_resultsAfterKeys:
  assumes "resultsAfterKeys s"
  shows "resultsAfterKeys (snd (getProvisioningResponse_resume env a s))"
proof -
  let ?s' = "snd (getProvisioningResponse_resume env a s)"
  have "resultsAfterKeys (s\<lparr>activations := activations ?s'\<rparr>)"
    using assms
    by (auto simp: resultsAfterKeys_def getProvisioningResponse_resume_activations)
  then show ?thesis
    by (subst getProvisioningResponse_resume_frame) (simp add: resultsAfterKeys_def)
qed

lemma handleMessage_resultsAfterKeys:
  "resultsAfterKeys s \<Longrightarrow>
     resultsAfterKeys (snd (handleMessage env source envelopeType target encrypted s))"
  by (subst handleMessage_frame) (simp add: resultsAfterKeys_def)

lemma provisionDevice_resultsAfterKeys:
  "resultsAfterKeys s \<Longrightarrow>
     resultsAfterKeys (snd (provisionDevice env num password code rid s))"
  by (subst provisionDevice_frame) (simp add: resultsAfterKeys_def)

lemma step_resultsAfterKeys:
  assumes "resultsAfterKeys s" "step env c s = Some s'"
  shows "resultsAfterKeys s'"
proof (cases c)
  case (CreatePrimaryDevice opts)
  with assms show ?thesis
    by (auto split: if_splits dest: createPrimaryDevice_resultsAfterKeys)
qed (use assms in \<open>auto split: if_splits
      simp: expire_resultsAfterKeys listen_resultsAfterKeys close_resultsAfterKeys
        waitForProvision_resultsAfterKeys
        complete_push_resultsAfterKeys complete_result_resultsAfterKeys
        waitForStorageManifest_resultsAfterKeys onStorageManifestUpdate_resultsAfterKeys
        createSecondaryDevice_resultsAfterKeys getProvisioningResponse_begin_resultsAfterKeys
        getProvisioningResponse_resume_resultsAfterKeys
        handleMessage_resultsAfterKeys updateDeviceKeys_resultsAfterKeys
        provisionDevice_resultsAfterKeys\<close>)

lemma exec_resultsAfterKeys:
  "resultsAfterKeys s \<Longrightarrow> exec env cs s = Some s' \<Longrightarrow> resultsAfterKeys s'"
  by (induction cs arbitrary: s) (auto split: option.splits dest: step_resultsAfterKeys)

lemma constructor_resultsAfterKeys: "resultsAfterKeys (constructor d cfg b)"
  by (simp add: resultsAfterKeys_def constructor_def Let_def newPromiseQueue_def
      unusedActivation_def)

lemma step_keysUpdated:
  assumes "step env c s = Some s'" "D \<in> set (keysUpdated s')"
  shows "D \<in> set (keysUpdated s) \<or> c \<in> range (UpdateDeviceKeys D) \<or> c \<in> range CreateSecondaryDevice"
proof (cases c)
  case (CreatePrimaryDevice opts)
  with assms obtain x where x: "createPrimaryDevice env opts s = Some (x, s')"
    by (auto split: if_splits)
  then obtain num s1 where g: "generateNumber env s = Some (num, s1)"
    and s': "s' = snd (registerNewPrimary env opts num s1)"
    by (auto simp: createPrimaryDevice_def split: option.splits)
  from generateNumber_state [OF g] have "keysUpdated s1 = keysUpdated s" by auto
  with s' registerNewPrimary_fixed [of env opts num s1] have "keysUpdated s' = keysUpdated s"
    by (simp add: fixedPart_def)
  with assms show ?thesis by simp
next
  case (UpdateDeviceKeys dev keys)
  with assms have "s' = snd (updateDeviceKeys env dev keys s)" by simp
  then have "keysUpdated s' = keysUpdated s @ [dev]"
    by (subst (asm) updateDeviceKeys_frame) simp
  with assms UpdateDeviceKeys show ?thesis by auto
next
  case (Listen p h)
  with assms show ?thesis by (auto simp: listen_def Let_def split: prod.splits if_splits)
next
  case Close
  with assms show ?thesis by (auto simp: close_def split: option.splits)
next
  case (BaseServerCall f)
  with assms show ?thesis by auto
next
  case (CreateSecondaryDevice r)
  then show ?thesis by simp
next
  case WaitForProvision
  with assms waitForProvision_fixed [of s] show ?thesis by (simp add: fixedPart_def)
next
  case (Complete_push a response)
  with assms complete_push_fixed [of a response s] show ?thesis
    by (simp add: fixedPart_def split: if_splits)
next
  case (Complete_result a)
  with assms complete_result_fixed [of a s] show ?thesis
    by (simp add: fixedPart_def split: if_splits)
next
  case (WaitForStorageManifest dev afterVersion)
  with assms waitForStorageManifest_fixed [of dev afterVersion s] show ?thesis
    by (simp add: fixedPart_def)
next
  case (OnStorageManifestUpdate dev ver)
  with assms onStorageManifestUpdate_fixed [of dev ver s] show ?thesis
    by (simp add: fixedPart_def)
next
  case (GetProvisioningResponse u)
  with assms getProvisioningResponse_begin_fixed [of u s] show ?thesis
    by (simp add: fixedPart_def)
next
  case (GetProvisioningResponse_resume a)
  with assms getProvisioningResponse_resume_fixed [of env a s] show ?thesis
    by (simp add: fixedPart_def split: if_splits)
next
  case (HandleMessage source envelopeType target encrypted)
  with assms handleMessage_fixed [of env source envelopeType target encrypted s] show ?thesis
    by (simp add: fixedPart_def)
next
  case (ProvisionDevice num password code rid)
  with assms provisionDevice_fixed [of env num password code rid s] show ?thesis
    by (simp add: fixedPart_def)
next
  case (Expire q i)
  with assms expire_fixed [of q i s] show ?thesis
    by (simp add: fixedPart_def split: if_splits)
qed

lemma exec_keysUpdated:
  "exec env cs s = Some s' \<Longrightarrow> D \<in> set (keysUpdated s') \<Longrightarrow>
     D \<in> set (keysUpdated s)
     \<or> (\<exists>keys. UpdateDeviceKeys D keys \<in> set cs) \<or> (\<exists>r. CreateSecondaryDevice r \<in> set cs)"
proof (induction cs arbitrary: s)
  case Nil
  then show ?case by simp
next
  case (Cons c cs)
  then obtain t where t: "step env c s = Some t" "exec env cs t = Some s'"
    by (auto split: option.splits)
  from Cons.IH [OF t(2) Cons.prems(2)] step_keysUpdated [OF t(1), of D]
  show ?case by auto
qed

subsection \<open>Configuration, known numbers and the listener are stable\<close>

lemma stable_refl: "stable s s"
  by (simp add: stable_def)

lemma stable_trans: "stable s t \<Longrightarrow> stable t u \<Longrightarrow> stable s u"
  by (auto simp: stable_def)

lemma fixedPart_stable: "fixedPart s' = fixedPart s \<Longrightarrow> stable s s'"
  by (simp add: fixedPart_def stable_def)

lemma stable_base: "stable s (s\<lparr>base := b\<rparr>)"
  by (simp add: stable_def)

lemma stable_primaries: "stable s t \<Longrightarrow> stable s (t\<lparr>primaries := f\<rparr>)"
  by (simp add: stable_def)

lemma listen_stable: "stable s (snd (listen env p h s))"
  by (simp add: listen_def stable_def Let_def split: prod.splits)

lemma close_stable: "stable s (snd (close s))"
  by (simp add: close_def stable_def split: option.splits)

lemma generateNumber_stable: "generateNumber env s = Some (num, s') \<Longrightarrow> stable s s'"
  by (auto simp: stable_def dest!: generateNumber_state)

lemma createPrimaryDevice_stable:
  assumes "createPrimaryDevice env opts s = Some (r, s')"
  shows "stable s s'"
proof -
  from assms obtain num s1 where g: "generateNumber env s = Some (num, s1)"
    and s': "s' = snd (registerNewPrimary env opts num s1)"
    by (auto simp: createPrimaryDevice_def split: option.splits)
  from generateNumber_stable [OF g]
    fixedPart_stable [OF registerNewPrimary_fixed [of env opts num s1]] s'
  show ?thesis by (auto intro: stable_trans)
qed

lemma updateDeviceKeys_stable: "stable s (snd (updateDeviceKeys env dev keys s))"
  by (subst updateDeviceKeys_frame) (simp add: stable_def)

lemma createSecondaryDevice_stable: "stable s (snd (createSecondaryDevice env r s))"
proof -
  have "stable s (snd (updateDeviceKeys env dev keys (s\<lparr>base := b\<rparr>)))" for dev keys b
    using stable_base [of s b] updateDeviceKeys_stable [of "s\<lparr>base := b\<rparr>" env dev keys]
    by (rule stable_trans)
  with createSecondaryDevice_state [of env r s] show ?thesis
    by (auto simp: stable_base stable_primaries)
qed

lemmas fixed_stable =
  fixedPart_stable [OF expire_fixed] fixedPart_stable [OF waitForProvision_fixed] fixedPart_stable [OF complete_push_fixed]
  fixedPart_stable [OF complete_result_fixed] fixedPart_stable [OF waitForStorageManifest_fixed]
  fixedPart_stable [OF onStorageManifestUpdate_fixed]
  fixedPart_stable [OF getProvisioningResponse_begin_fixed]
  fixedPart_stable [OF getProvisioningResponse_resume_fixed]
  fixedPart_stable [OF handleMessage_fixed] fixedPart_stable [OF provisionDevice_fixed]

lemma step_stable:
  assumes "step env c s = Some s'"
  shows "stable s s'"
proof (cases c)
  case (CreatePrimaryDevice opts)
  with assms show ?thesis
    by (auto split: if_splits dest: createPrimaryDevice_stable)
next
  case (BaseServerCall f)
  with assms show ?thesis by (auto simp: stable_base)
qed (use assms in \<open>auto split: if_splits
      simp: listen_stable close_stable createSecondaryDevice_stable updateDeviceKeys_stable
        fixed_stable\<close>)

lemma exec_stable: "exec env cs s = Some s' \<Longrightarrow> stable s s'"
proof (induction cs arbitrary: s)
  case Nil
  then show ?case by (simp add: stable_refl)
next
  case (Cons c cs)
  then obtain t where "step env c s = Some t" "exec env cs t = Some s'"
    by (auto split: option.splits)
  with Cons.IH [of t] step_stable [of env c s t] show ?case
    by (auto intro: stable_trans)
qed

lemma step_not_listening:
  assumes "step env c s = Some s'" "https s = None" "c \<notin> range (\<lambda>(p, h). Listen p h)"
  shows "https s' = None"
proof (cases c)
  case (Listen p h)
  with assms(3) show ?thesis by auto
next
  case Close
  with assms show ?thesis by (simp add: close_def)
next
  case (CreatePrimaryDevice opts)
  with assms obtain x where "createPrimaryDevice env opts s = Some (x, s')"
    by (auto split: if_splits)
  then obtain num s1 where g: "generateNumber env s = Some (num, s1)"
    and s': "s' = snd (registerNewPrimary env opts num s1)"
    by (auto simp: createPrimaryDevice_def split: option.splits)
  from generateNumber_state [OF g] have "https s1 = https s" by auto
  with s' registerNewPrimary_fixed [of env opts num s1] assms(2) show ?thesis
    by (simp add: fixedPart_def)
next
  case (UpdateDeviceKeys dev keys)
  with assms have "s' = snd (updateDeviceKeys env dev keys s)" by simp
  then have "https s' = https s"
    by (subst (asm) updateDeviceKeys_frame) simp
  with assms show ?thesis by simp
next
  case (CreateSecondaryDevice r)
  with assms have s': "s' = snd (createSecondaryDevice env r s)" by (simp split: if_splits)
  have "https (snd (updateDeviceKeys env dev keys (s\<lparr>base := b\<rparr>))) = https s" for dev keys b
    by (subst updateDeviceKeys_frame) simp
  with createSecondaryDevice_state [of env r s] s' assms(2) show ?thesis by auto
next
  case (BaseServerCall f)
  with assms show ?thesis by auto
next
  case WaitForProvision
  with assms waitForProvision_fixed [of s] show ?thesis by (simp add: fixedPart_def)
next
  case (Complete_push a response)
  with assms complete_push_fixed [of a response s] show ?thesis
    by (simp add: fixedPart_def split: if_splits)
next
  case (Complete_result a)
  with assms complete_result_fixed [of a s] show ?thesis
    by (simp add: fixedPart_def split: if_splits)
next
  case (WaitForStorageManifest dev afterVersion)
  with assms waitForStorageManifest_fixed [of dev afterVersion s] show ?thesis
    by (simp add: fixedPart_def)
next
  case (OnStorageManifestUpdate dev ver)
  with assms onStorageManifestUpdate_fixed [of dev ver s] show ?thesis
    by (simp add: fixedPart_def)
next
  case (GetProvisioningResponse u)
  with assms getProvisioningResponse_begin_fixed [of u s] show ?thesis
    by (simp add: fixedPart_def)
next
  case (GetProvisioningResponse_resume a)
  with assms getProvisioningResponse_resume_fixed [of env a s] show ?thesis
    by (simp add: fixedPart_def split: if_splits)
next
  case (HandleMessage source envelopeType target encrypted)
  with assms handleMessage_fixed [of env source envelopeType target encrypted s] show ?thesis
    by (simp add: fixedPart_def)
next
  case (ProvisionDevice num password code rid)
  with assms provisionDevice_fixed [of env num password code rid s] show ?thesis
    by (simp add: fixedPart_def)
next
  case (Expire q i)
  with assms expire_fixed [of q i s] show ?thesis
    by (simp add: fixedPart_def split: if_splits)
qed

lemma exec_not_listening:
  "exec env cs s = Some s' \<Longrightarrow> https s = None \<Longrightarrow> \<forall>p h. Listen p h \<notin> set cs \<Longrightarrow>
     https s' = None"
proof (induction cs arbitrary: s)
  case Nil
  then show ?case by simp
next
  case (Cons c cs)
  then obtain t where t: "step env c s = Some t" "exec env cs t = Some s'"
    by (auto split: option.splits)
  from Cons.prems(3) have "c \<notin> range (\<lambda>(p, h). Listen p h)" by auto
  from step_not_listening [OF t(1) Cons.prems(2) this] have "https t = None" .
  with Cons.IH [OF t(2)] Cons.prems(3) show ?case by simp
qed

lemma drawNumber_fresh:
  assumes "drawNumber rnd known i = Some y"
  shows "fst y \<notin> known \<and> i < snd y"
proof (rule drawNumber.raw_induct
    [where P = "\<lambda>rnd known i y. fst y \<notin> known \<and> i < snd y", OF _ assms])
  fix f :: "(nat \<Rightarrow> string) \<Rightarrow> string set \<Rightarrow> nat \<Rightarrow> (string \<times> nat) option"
  fix rnd known i y
  assume IH: "\<And>rnd known i y. f rnd known i = Some y \<Longrightarrow> fst y \<notin> known \<and> i < snd y"
  assume eq: "(if rnd i \<in> known then f rnd known (Suc i) else Some (rnd i, Suc i)) = Some y"
  show "fst y \<notin> known \<and> i < snd y"
  proof (cases "rnd i \<in> known")
    case True
    with eq have "f rnd known (Suc i) = Some y" by simp
    from IH [OF this] show ?thesis by simp
  next
    case False
    with eq show ?thesis by auto
  qed
qed

lemma generateNumber_fresh:
  "generateNumber env s = Some (num, s') \<Longrightarrow>
     num \<notin> knownNumbers s \<and> num \<in> knownNumbers s'"
  by (auto simp: generateNumber_def split: option.splits dest: drawNumber_fresh)

subsection \<open>The example runs\<close>

lemmas example_defs =
  exampleRun_def exampleAnswered_def examplePrimaryUp_def exampleStarted_def
  exampleCollaborators_def exampleDefaults_def exampleConfig_def
  exampleDevice_def constructor_def strictConfig_def spread_def listen_def
  createPrimaryDevice_def generateNumber_def drawNumber.simps registerNewPrimary_def
  getProvisioningResponse_begin_def createQueue_def newPromiseQueue_def pushAndWait_def
  waitForProvision_def shift_def complete_push_def getProvisioningResponse_resume_def
  provisionDevice_def provisionKey_def updateDeviceKeys_def complete_result_def
  unusedActivation_def unusedPrimary_def Let_def

lemma decimal_7: "decimal 7 = ''7''"
  by (simp add: decimal.simps [of 7])

lemma example_run:
  "\<exists>s s'. exec exampleCollaborators exampleRun (constructor exampleDefaults exampleConfig 0) = Some s
     \<and> complete_result 0 s = (Inr exampleDevice, s') \<and> nextActivation s = 1"
  by (simp add: example_defs decimal_7)

lemma example_answered:
  "\<exists>s envelope s1 s2.
      exec exampleCollaborators exampleAnswered (constructor exampleDefaults exampleConfig 0) = Some s
    \<and> getProvisioningResponse_resume exampleCollaborators 0 s = (Inr envelope, s1)
    \<and> provisionResultQueueByCode s1 ''code'' = Some 0
    \<and> provisionDevice exampleCollaborators ''+1'' ''password'' ''code'' 7 s1 = (Inr exampleDevice, s2)"
  by (simp add: example_defs decimal_7)

lemma example_two_primaries:
  "\<exists>r1 s1 r2 s3. createPrimaryDevice exampleCollaborators exampleOptions exampleStarted = Some (r1, s1)
     \<and> exec exampleCollaborators [Close] s1 = Some (snd (close s1))
     \<and> createPrimaryDevice exampleCollaborators exampleOptions (snd (close s1)) = Some (Inr r2, s3)
     \<and> map_option fst (generateNumber exampleCollaborators exampleStarted) = Some ''1''
     \<and> map_option fst (generateNumber exampleCollaborators (snd (close s1))) = Some ''11''
     \<and> createdNumber (createPrimaryDevice exampleCollaborators exampleOptions exampleStarted)
         = Some ''1''
     \<and> createdNumber (createPrimaryDevice exampleCollaborators exampleOptions (snd (close s1)))
         = Some ''11''"
  by (simp add: example_defs exampleOptions_def close_def createdNumber_def)

subsection \<open>Waiting for a storage manifest\<close>

lemma shiftUntilAfter_Some:
  "shiftUntilAfter (Some a) q = (Inr v, q') \<Longrightarrow>
     \<exists>skipped. entries q = skipped @ v # entries q' \<and> (\<forall>x \<in> set skipped. x \<le> a) \<and> a < v
       \<and> queueTimeout q' = queueTimeout q"
proof (induction xs \<equiv> "entries q" arbitrary: q)
  case Nil
  from Nil.hyps [symmetric] Nil.prems show ?case by (simp add: shiftUntilAfter_Nil)
next
  case (Cons x xs)
  from Cons.hyps(2) have q: "entries q = x # xs" by simp
  show ?case
  proof (cases "x \<le> a")
    case True
    with q Cons.prems have rec: "shiftUntilAfter (Some a) (q\<lparr>entries := xs\<rparr>) = (Inr v, q')"
      by (simp add: shiftUntilAfter_Cons)
    have "\<exists>skipped. entries (q\<lparr>entries := xs\<rparr>) = skipped @ v # entries q'
        \<and> (\<forall>x \<in> set skipped. x \<le> a) \<and> a < v
        \<and> queueTimeout q' = queueTimeout (q\<lparr>entries := xs\<rparr>)"
      by (rule Cons.hyps(1) [OF _ rec]) simp
    then obtain skipped where "xs = skipped @ v # entries q'"
      "\<forall>x \<in> set skipped. x \<le> a" "a < v" "queueTimeout q' = queueTimeout q"
      by auto
    with q True have "entries q = (x # skipped) @ v # entries q'
        \<and> (\<forall>x \<in> set (x # skipped). x \<le> a) \<and> a < v \<and> queueTimeout q' = queueTimeout q"
      by simp
    then show ?thesis by (rule exI)
  next
    case False
    with q Cons.prems have "v = x" "q' = q\<lparr>entries := xs\<rparr>"
      by (simp_all add: shiftUntilAfter_Cons)
    with q False have "entries q = [] @ v # entries q'
        \<and> (\<forall>x \<in> set []. x \<le> a) \<and> a < v \<and> queueTimeout q' = queueTimeout q"
      by simp
    then show ?thesis by (rule exI)
  qed
qed

text \<open>
  The loop returns as soon as the queue holds a version above \<open>afterVersion\<close>.
\<close>

lemma shiftUntilAfter_returns:
  "\<exists>x \<in> set (entries q). a < x \<Longrightarrow> \<exists>v q'. shiftUntilAfter (Some a) q = (Inr v, q')"
proof (induction xs \<equiv> "entries q" arbitrary: q)
  case Nil
  then show ?case by simp
next
  case (Cons x xs)
  from Cons.hyps(2) have q: "entries q = x # xs" by simp
  show ?case
  proof (cases "x \<le> a")
    case True
    with q Cons.prems have "\<exists>x \<in> set (entries (q\<lparr>entries := xs\<rparr>)). a < x" by auto
    then have "\<exists>v q'. shiftUntilAfter (Some a) (q\<lparr>entries := xs\<rparr>) = (Inr v, q')"
      by (intro Cons.hyps(1)) simp_all
    with q True show ?thesis by (simp add: shiftUntilAfter_Cons)
  next
    case False
    with q show ?thesis by (simp add: shiftUntilAfter_Cons)
  qed
qed

text \<open>
  Claim C3: a call \<open>waitForStorageManifest(D, afterVersion)\<close> with \<open>afterVersion\<close> defined
  returns only after it has shifted, from the manifest queue of \<open>D\<close>'s uuid, a version
  strictly greater than \<open>afterVersion\<close>; the versions it shifted before that one are all
  less than or equal to \<open>afterVersion\<close>, and they are consumed: the queue is left with
  what followed the version the call returned on.
\<close>

theorem waitForStorageManifest_after:
  assumes "waitForStorageManifest dev (Some a) s = (Inr (), s')"
  shows "\<exists>skipped v q'.
           manifestQueueByUuid s' (uuid dev) = Some q'
         \<and> entries (manifestQueue s (uuid dev)) = skipped @ v # entries q'
         \<and> (\<forall>x \<in> set skipped. x \<le> a) \<and> a < v"
proof -
  obtain r q' where loop: "shiftUntilAfter (Some a) (manifestQueue s (uuid dev)) = (r, q')"
    by (cases "shiftUntilAfter (Some a) (manifestQueue s (uuid dev))")
  with assms obtain v where r: "r = Inr v"
    and s': "s' = s\<lparr>manifestQueueByUuid := (manifestQueueByUuid s)(uuid dev \<mapsto> q')\<rparr>"
    by (cases r) (auto simp: waitForStorageManifest_def)
  from shiftUntilAfter_Some [OF loop [unfolded r]] obtain skipped where
    "entries (manifestQueue s (uuid dev)) = skipped @ v # entries q'"
    "\<forall>x \<in> set skipped. x \<le> a" "a < v" by blast
  with s' have "manifestQueueByUuid s' (uuid dev) = Some q'
         \<and> entries (manifestQueue s (uuid dev)) = skipped @ v # entries q'
         \<and> (\<forall>x \<in> set skipped. x \<le> a) \<and> a < v" by simp
  then show ?thesis by (intro exI)
qed

theorem waitForStorageManifest_after_witness:
  "\<exists>s' q'. waitForStorageManifest exampleDevice (Some 1) exampleManifests = (Inr (), s')
     \<and> manifestQueueByUuid s' ''aci'' = Some q'
     \<and> entries (manifestQueue exampleManifests ''aci'') = [1] @ 2 # entries q'"
proof -
  have call: "waitForStorageManifest exampleDevice (Some 1) exampleManifests
      = (Inr (), snd (waitForStorageManifest exampleDevice (Some 1) exampleManifests))"
    by (simp add: exampleManifests_def waitForStorageManifest_def onStorageManifestUpdate_def
        manifestQueue_def createQueue_def newPromiseQueue_def push_def exampleDevice_def
        constructor_def Let_def shiftUntilAfter.simps shift_def)
  from waitForStorageManifest_after [OF call] obtain skipped v q' where
    q': "manifestQueueByUuid (snd (waitForStorageManifest exampleDevice (Some 1) exampleManifests))
          (uuid exampleDevice) = Some q'"
    and split: "entries (manifestQueue exampleManifests (uuid exampleDevice))
          = skipped @ v # entries q'"
    and skipped: "\<forall>x \<in> set skipped. x \<le> 1" and v: "1 < v"
    by blast
  have all: "entries (manifestQueue exampleManifests (uuid exampleDevice)) = [1, 2, 3]"
    by (simp add: exampleManifests_def onStorageManifestUpdate_def
        manifestQueue_def createQueue_def newPromiseQueue_def push_def exampleDevice_def
        constructor_def Let_def)
  have "skipped = [1] \<and> v = 2"
  proof (cases skipped)
    case Nil
    with split all v show ?thesis by simp
  next
    case (Cons x xs)
    with split all have x: "x = 1" and rest: "[2, 3] = xs @ v # entries q'" by simp_all
    show ?thesis
    proof (cases xs)
      case Nil
      with rest x Cons show ?thesis by simp
    next
      case (Cons y ys)
      with rest have "y = 2" by simp
      with \<open>skipped = x # xs\<close> Cons skipped show ?thesis by simp
    qed
  qed
  with q' split call show ?thesis
    by (intro exI [of _ "snd (waitForStorageManifest exampleDevice (Some 1) exampleManifests)"]
        exI [of _ q']) (simp add: exampleDevice_def)
qed

subsection \<open>Lifecycle\<close>

text \<open>
  Claim C10: \<open>listen\<close> on a server that already has a listener throws
  \<open>Already listening\<close> and starts nothing; \<open>close\<close> and \<open>address\<close> on a server that has
  no listener yet throw \<open>Not listening\<close>; in each of these cases the state is left as
  it was. A server has no listener until \<open>listen\<close> is called: none after construction
  and none after any run without a call of \<open>listen\<close>; and once \<open>listen\<close> has
  succeeded it has one in every later state.
\<close>

theorem lifecycle_guards:
  "(https s \<noteq> None \<longrightarrow> listen env p h s = (Inl (Error ''Already listening''), s))
   \<and> (https s = None \<longrightarrow>
        close s = (Inl (Error ''Not listening''), s)
        \<and> address env s = Inl (Error ''Not listening''))
   \<and> (exec env cs (constructor d cfg b) = Some t \<longrightarrow> (\<forall>p h. Listen p h \<notin> set cs) \<longrightarrow>
        https t = None)
   \<and> (listen env p h s = (Inr (), s1) \<longrightarrow> exec env cs s1 = Some s2 \<longrightarrow> https s2 \<noteq> None)"
proof (intro conjI impI)
  assume "https s \<noteq> None"
  then show "listen env p h s = (Inl (Error ''Already listening''), s)"
    by (simp add: listen_def)
next
  assume "https s = None"
  then show "close s = (Inl (Error ''Not listening''), s)"
    and "address env s = Inl (Error ''Not listening'')"
    by (simp_all add: close_def address_def)
next
  assume "exec env cs (constructor d cfg b) = Some t" "\<forall>p h. Listen p h \<notin> set cs"
  moreover have "https (constructor d cfg b) = None"
    by (simp add: constructor_def Let_def)
  ultimately show "https t = None"
    by (auto dest: exec_not_listening)
next
  assume "listen env p h s = (Inr (), s1)"
  then have "https s1 \<noteq> None"
    by (auto simp: listen_def Let_def split: if_splits prod.splits)
  moreover assume "exec env cs s1 = Some s2"
  ultimately show "https s2 \<noteq> None"
    by (auto dest!: exec_stable simp: stable_def)
qed

theorem lifecycle_guards_witness:
  "close (constructor exampleDefaults exampleConfig (0::nat))
      = (Inl (Error ''Not listening''), constructor exampleDefaults exampleConfig 0)
   \<and> address exampleCollaborators (constructor exampleDefaults exampleConfig 0)
      = Inl (Error ''Not listening'')
   \<and> listen exampleCollaborators 1 None exampleStarted
      = (Inl (Error ''Already listening''), exampleStarted)
   \<and> https (snd (close exampleStarted)) \<noteq> None"
proof -
  have off: "https (constructor exampleDefaults exampleConfig (0::nat)) = None"
    by (simp add: constructor_def Let_def)
  have on: "https exampleStarted \<noteq> None"
    by (simp add: exampleStarted_def listen_def constructor_def Let_def split: prod.splits)
  have started: "listen exampleCollaborators 0 None (constructor exampleDefaults exampleConfig 0)
      = (Inr (), exampleStarted)"
    by (simp add: exampleStarted_def listen_def constructor_def Let_def split: prod.splits)
  have run: "exec exampleCollaborators [Close] exampleStarted = Some (snd (close exampleStarted))"
    by simp
  have none: "exec exampleCollaborators [] (constructor exampleDefaults exampleConfig 0)
      = Some (constructor exampleDefaults exampleConfig 0)"
    by simp
  from lifecycle_guards
    [of "constructor exampleDefaults exampleConfig 0" exampleCollaborators 0 None
      "[]" exampleDefaults exampleConfig 0 "constructor exampleDefaults exampleConfig 0"
      exampleStarted exampleStarted] off none started
  have "close (constructor exampleDefaults exampleConfig (0::nat))
      = (Inl (Error ''Not listening''), constructor exampleDefaults exampleConfig 0)
   \<and> address exampleCollaborators (constructor exampleDefaults exampleConfig 0)
      = Inl (Error ''Not listening'')"
    by simp
  moreover from lifecycle_guards
    [of exampleStarted exampleCollaborators 1 None "[Close]" exampleDefaults exampleConfig 0
      "snd (close exampleStarted)" exampleStarted "snd (close exampleStarted)"] on
  have "listen exampleCollaborators 1 None exampleStarted
      = (Inl (Error ''Already listening''), exampleStarted)"
    by blast
  moreover from lifecycle_guards
    [of "constructor exampleDefaults exampleConfig 0" exampleCollaborators 0 None
      "[Close]" exampleDefaults exampleConfig 0 "snd (close exampleStarted)"
      exampleStarted "snd (close exampleStarted)"] started run
  have "https (snd (close exampleStarted)) \<noteq> None"
    by blast
  ultimately show ?thesis by blast
qed

subsection \<open>Messages for devices that are not a registered primary\<close>

text \<open>
  Claim C9 reads: if the target's device id is not the primary device id 1, or no
  \<open>PrimaryDevice\<close> is registered for the target's uuid, \<open>handleMessage\<close> returns
  without delivering and without modifying the state. \<open>handleMessage\<close> asserts first
  that a source is given or the envelope is sealed sender, so for an envelope that has
  no source and is not sealed sender it does not return: it throws, also when the
  target is not a primary device.
\<close>

theorem handleMessage_throws_without_source:
  "deviceId exampleDevice \<noteq> PRIMARY_DEVICE_ID
   \<and> handleMessage exampleCollaborators None (OtherEnvelope 1) exampleDevice [9]
         (constructor exampleDefaults exampleConfig 0)
       = (Inl (AssertionError ''No source for non-sealed sender envelope''),
          constructor exampleDefaults exampleConfig 0)"
  by (simp add: handleMessage_def exampleDevice_def PRIMARY_DEVICE_ID_def)

text \<open>
  Claim C9, amended: if the target's device id is not the primary device id 1, or no
  \<open>PrimaryDevice\<close> is registered for the target's uuid, \<open>handleMessage\<close> delivers no
  envelope and modifies no server state; it returns when a source is given or the
  envelope is sealed sender, and throws the \<open>AssertionError\<close> of its assertion
  otherwise. Delivery to the primary's envelope handler happens only when both
  conditions hold (the target is device 1 and a \<open>PrimaryDevice\<close> is registered for its
  uuid), and only when the assertion holds.
\<close>

theorem handleMessage_ignores_other_targets:
  "(deviceId target \<noteq> PRIMARY_DEVICE_ID \<or> primaryDevices s (uuid target) = None \<longrightarrow>
      snd (handleMessage env source envelopeType target encrypted s) = s
      \<and> (source \<noteq> None \<or> envelopeType = SealedSender \<longrightarrow>
           fst (handleMessage env source envelopeType target encrypted s) = Inr ())
      \<and> (source = None \<and> envelopeType \<noteq> SealedSender \<longrightarrow>
           fst (handleMessage env source envelopeType target encrypted s)
             = Inl (AssertionError ''No source for non-sealed sender envelope'')))
   \<and> ((\<exists>r. inbox (primaries (snd (handleMessage env source envelopeType target encrypted s)) r)
             \<noteq> inbox (primaries s r)) \<longrightarrow>
        deviceId target = PRIMARY_DEVICE_ID \<and> primaryDevices s (uuid target) \<noteq> None
        \<and> (source \<noteq> None \<or> envelopeType = SealedSender))"
  by (auto simp: handleMessage_def handleEnvelope_def Let_def split: option.splits if_splits)

lemma example_primary_registered:
  "\<exists>s. exec exampleCollaborators examplePrimaryUp (constructor exampleDefaults exampleConfig 0)
        = Some s
     \<and> inbox (primaries (snd (handleMessage exampleCollaborators None SealedSender exampleTarget
            [9] s)) 0) \<noteq> inbox (primaries s 0)"
  by (simp add: example_defs handleMessage_def handleEnvelope_def exampleTarget_def
      PRIMARY_DEVICE_ID_def)

theorem handleMessage_ignores_other_targets_witness:
  "(snd (handleMessage exampleCollaborators None SealedSender exampleDevice [9]
          (constructor exampleDefaults exampleConfig 0))
      = constructor exampleDefaults exampleConfig 0
    \<and> fst (handleMessage exampleCollaborators None SealedSender exampleDevice [9]
          (constructor exampleDefaults exampleConfig 0)) = Inr ())
   \<and> (snd (handleMessage exampleCollaborators None (OtherEnvelope 1) exampleDevice [9]
          (constructor exampleDefaults exampleConfig 0))
      = constructor exampleDefaults exampleConfig 0
    \<and> fst (handleMessage exampleCollaborators None (OtherEnvelope 1) exampleDevice [9]
          (constructor exampleDefaults exampleConfig 0))
      = Inl (AssertionError ''No source for non-sealed sender envelope''))
   \<and> (\<exists>s. inbox (primaries (snd (handleMessage exampleCollaborators None SealedSender
              exampleTarget [9] s)) 0) \<noteq> inbox (primaries s 0)
         \<and> deviceId exampleTarget = PRIMARY_DEVICE_ID
         \<and> primaryDevices s (uuid exampleTarget) \<noteq> None)"
proof (intro conjI)
  have other: "deviceId exampleDevice \<noteq> PRIMARY_DEVICE_ID"
    by (simp add: exampleDevice_def PRIMARY_DEVICE_ID_def)
  from other handleMessage_ignores_other_targets
    [of exampleDevice "constructor exampleDefaults exampleConfig 0" exampleCollaborators
      None SealedSender "[9]"]
  show "snd (handleMessage exampleCollaborators None SealedSender exampleDevice [9]
          (constructor exampleDefaults exampleConfig 0))
      = constructor exampleDefaults exampleConfig 0"
    and "fst (handleMessage exampleCollaborators None SealedSender exampleDevice [9]
          (constructor exampleDefaults exampleConfig 0)) = Inr ()"
    by blast+
  from other handleMessage_ignores_other_targets
    [of exampleDevice "constructor exampleDefaults exampleConfig 0" exampleCollaborators
      None "OtherEnvelope 1" "[9]"]
  show "snd (handleMessage exampleCollaborators None (OtherEnvelope 1) exampleDevice [9]
          (constructor exampleDefaults exampleConfig 0))
      = constructor exampleDefaults exampleConfig 0"
    and "fst (handleMessage exampleCollaborators None (OtherEnvelope 1) exampleDevice [9]
          (constructor exampleDefaults exampleConfig 0))
      = Inl (AssertionError ''No source for non-sealed sender envelope'')"
    by simp_all
  from example_primary_registered obtain s where
    delivered: "inbox (primaries (snd (handleMessage exampleCollaborators None SealedSender
        exampleTarget [9] s)) 0) \<noteq> inbox (primaries s 0)"
    by blast
  with handleMessage_ignores_other_targets
    [of exampleTarget s exampleCollaborators None SealedSender "[9]"]
  have "deviceId exampleTarget = PRIMARY_DEVICE_ID
      \<and> primaryDevices s (uuid exampleTarget) \<noteq> None"
    by blast
  with delivered show "\<exists>s. inbox (primaries (snd (handleMessage exampleCollaborators None
       SealedSender exampleTarget [9] s)) 0) \<noteq> inbox (primaries s 0)
         \<and> deviceId exampleTarget = PRIMARY_DEVICE_ID
         \<and> primaryDevices s (uuid exampleTarget) \<noteq> None"
    by blast
qed

subsection \<open>A provisioning code is consumed\<close>

lemma resume_issues:
  "getProvisioningResponse_resume env a s = (Inr envelope, s1) \<Longrightarrow>
     \<exists>response rest code b'.
        entries (responseQueue (activations s a)) = response # rest
      \<and> getProvisioningCode env (base s) (act_uuid (activations s a))
           (number (device (primaries s (primaryDevice response)))) = (Inr code, b')
      \<and> provisionResultQueueByCode s1 = (provisionResultQueueByCode s)(code \<mapsto> a)"
  by (auto simp: getProvisioningResponse_resume_def Let_def shift_def
        split: prod.splits sum.splits option.splits QueryValue.splits if_splits list.splits)

text \<open>
  Claim C2: when \<open>getProvisioningResponse\<close> issues a provisioning code (the code
  \<open>getProvisioningCode\<close> returns for the answered attempt), it enters that attempt's
  result queue under the code in \<open>provisionResultQueueByCode\<close>, a map, which therefore
  holds exactly one entry for the code. A \<open>provisionDevice\<close> call with a code that has
  an entry removes the entry (whether or not the base class then succeeds), so a
  second \<open>provisionDevice\<close> call with the same code fails its assertion and changes
  nothing.
\<close>

theorem provisioning_code_consumed:
  "(getProvisioningResponse_resume env a s = (Inr envelope, s1) \<longrightarrow>
      (\<exists>response rest code b'.
          entries (responseQueue (activations s a)) = response # rest
        \<and> getProvisioningCode env (base s) (act_uuid (activations s a))
             (number (device (primaries s (primaryDevice response)))) = (Inr code, b')
        \<and> provisionResultQueueByCode s1 = (provisionResultQueueByCode s)(code \<mapsto> a)))
   \<and> (provisionResultQueueByCode t code = Some q \<longrightarrow>
        provisionDevice env num password code rid t = (r, t') \<longrightarrow>
          provisionResultQueueByCode t' code = None
        \<and> provisionDevice env num' password' code rid' t'
            = (Inl (AssertionError (''Missing provision result queue for code: '' @ code)), t'))"
proof (intro conjI impI)
  assume "getProvisioningResponse_resume env a s = (Inr envelope, s1)"
  then show "\<exists>response rest code b'.
          entries (responseQueue (activations s a)) = response # rest
        \<and> getProvisioningCode env (base s) (act_uuid (activations s a))
             (number (device (primaries s (primaryDevice response)))) = (Inr code, b')
        \<and> provisionResultQueueByCode s1 = (provisionResultQueueByCode s)(code \<mapsto> a)"
    by (rule resume_issues)
next
  assume "provisionDevice env num password code rid t = (r, t')"
  then have "t' = snd (provisionDevice env num password code rid t)" by simp
  then show none: "provisionResultQueueByCode t' code = None"
    by (simp add: provisionDevice_byCode)
  then show "provisionDevice env num' password' code rid' t'
      = (Inl (AssertionError (''Missing provision result queue for code: '' @ code)), t')"
    by (simp add: provisionDevice_def)
qed

theorem provisioning_code_consumed_witness:
  "\<exists>s s1 s2 envelope.
      getProvisioningResponse_resume exampleCollaborators 0 s = (Inr envelope, s1)
    \<and> provisionResultQueueByCode s1 ''code'' = Some 0
    \<and> provisionDevice exampleCollaborators ''+1'' ''password'' ''code'' 7 s1 = (Inr exampleDevice, s2)
    \<and> provisionResultQueueByCode s2 ''code'' = None
    \<and> fst (provisionDevice exampleCollaborators ''+1'' ''password'' ''code'' 7 s2)
        = Inl (AssertionError ''Missing provision result queue for code: code'')"
proof -
  from example_answered obtain s envelope s1 s2 where
    resume: "getProvisioningResponse_resume exampleCollaborators 0 s = (Inr envelope, s1)"
    and entry: "provisionResultQueueByCode s1 ''code'' = Some 0"
    and first: "provisionDevice exampleCollaborators ''+1'' ''password'' ''code'' 7 s1
        = (Inr exampleDevice, s2)"
    by blast
  from provisioning_code_consumed
    [of exampleCollaborators 0 s envelope s1 s1 "''code''" 0 "''+1''" "''password''" 7
      "Inr exampleDevice" s2 "''+1''" "''password''" 7] resume entry first
  have "provisionResultQueueByCode s2 ''code'' = None
    \<and> fst (provisionDevice exampleCollaborators ''+1'' ''password'' ''code'' 7 s2)
        = Inl (AssertionError ''Missing provision result queue for code: code'')"
    by simp
  with resume entry first show ?thesis by blast
qed

subsection \<open>Every queue uses the configured timeout\<close>

lemma example_queues:
  "\<exists>s. exec exampleCollaborators exampleQueues (constructor exampleDefaults cfg 0) = Some s
     \<and> provisionResultQueueByCode s ''code'' = Some 1
     \<and> provisionResultQueueByKey s ''aci.7'' = Some 0
     \<and> manifestQueueByUuid s ''aci'' \<noteq> None"
  by (simp add: exampleQueues_def example_defs decimal_7 onStorageManifestUpdate_def
      manifestQueue_def push_def)

text \<open>
  Claim C8: in every run of a server from its construction, \<open>provisionQueue\<close>, every
  queue entered in \<open>provisionResultQueueByCode\<close> or \<open>provisionResultQueueByKey\<close>, every
  queue in \<open>manifestQueueByUuid\<close> and both queues of every provisioning attempt were
  constructed with the configured timeout: the timeout that the configuration passed
  to the constructor gives, and 60000 ms when that configuration omits \<open>timeout\<close>. (A
  configuration that has the property with the value \<open>undefined\<close> configures no
  timeout.)
\<close>

theorem queues_use_configured_timeout:
  assumes run: "exec env cs (constructor d cfg b) = Some s"
  shows "(cfg_timeout cfg = Omitted \<longrightarrow> timeout (config s) = Some 60000)
       \<and> (\<forall>t. cfg_timeout cfg = Given t \<longrightarrow> timeout (config s) = Some t)
       \<and> (cfg_timeout cfg = Undefined \<longrightarrow> timeout (config s) = None)
       \<and> queueTimeout (provisionQueue s) = timeout (config s)
       \<and> (\<forall>code a. provisionResultQueueByCode s code = Some a \<longrightarrow>
             a < nextActivation s
           \<and> queueTimeout (resultQueue (activations s a)) = timeout (config s))
       \<and> (\<forall>k a. provisionResultQueueByKey s k = Some a \<longrightarrow>
             a < nextActivation s
           \<and> queueTimeout (resultQueue (activations s a)) = timeout (config s))
       \<and> (\<forall>u q. manifestQueueByUuid s u = Some q \<longrightarrow> queueTimeout q = timeout (config s))
       \<and> (\<forall>a < nextActivation s.
             queueTimeout (responseQueue (activations s a)) = timeout (config s)
           \<and> queueTimeout (resultQueue (activations s a)) = timeout (config s))"
proof -
  from exec_stable [OF run] have "config s = config (constructor d cfg b)"
    by (simp add: stable_def)
  then have cfg: "timeout (config s) = spread DEFAULT_API_TIMEOUT (cfg_timeout cfg)"
    by (simp add: constructor_def Let_def strictConfig_def)
  from exec_configured [OF constructor_configured run] have inv: "queuesConfigured s" .
  from cfg have "cfg_timeout cfg = Omitted \<longrightarrow> timeout (config s) = Some 60000"
    and "\<forall>t. cfg_timeout cfg = Given t \<longrightarrow> timeout (config s) = Some t"
    and "cfg_timeout cfg = Undefined \<longrightarrow> timeout (config s) = None"
    by (simp_all add: spread_def DEFAULT_API_TIMEOUT_def)
  with inv show ?thesis unfolding queuesConfigured_def by blast
qed

theorem queues_use_configured_timeout_witness:
  "(\<exists>s q. exec exampleCollaborators exampleQueues
              (constructor exampleDefaults exampleShortTimeout 0) = Some s
       \<and> queueTimeout (provisionQueue s) = Some 1000
       \<and> provisionResultQueueByCode s ''code'' = Some 1
       \<and> queueTimeout (resultQueue (activations s 1)) = Some 1000
       \<and> provisionResultQueueByKey s ''aci.7'' = Some 0
       \<and> queueTimeout (resultQueue (activations s 0)) = Some 1000
       \<and> queueTimeout (responseQueue (activations s 0)) = Some 1000
       \<and> manifestQueueByUuid s ''aci'' = Some q \<and> queueTimeout q = Some 1000)
   \<and> (\<exists>s q. exec exampleCollaborators exampleQueues
              (constructor exampleDefaults exampleConfig 0) = Some s
       \<and> queueTimeout (provisionQueue s) = Some 60000
       \<and> provisionResultQueueByCode s ''code'' = Some 1
       \<and> queueTimeout (resultQueue (activations s 1)) = Some 60000
       \<and> provisionResultQueueByKey s ''aci.7'' = Some 0
       \<and> queueTimeout (resultQueue (activations s 0)) = Some 60000
       \<and> queueTimeout (responseQueue (activations s 0)) = Some 60000
       \<and> manifestQueueByUuid s ''aci'' = Some q \<and> queueTimeout q = Some 60000)"
proof
  from example_queues [of exampleShortTimeout] obtain s q where
    run: "exec exampleCollaborators exampleQueues
        (constructor exampleDefaults exampleShortTimeout 0) = Some s"
    and code: "provisionResultQueueByCode s ''code'' = Some 1"
    and key: "provisionResultQueueByKey s ''aci.7'' = Some 0"
    and manifest: "manifestQueueByUuid s ''aci'' = Some q"
    by auto
  have given: "cfg_timeout exampleShortTimeout = Given 1000"
    by (simp add: exampleShortTimeout_def)
  note all = queues_use_configured_timeout [OF run]
  from all given have t: "timeout (config s) = Some 1000" by blast
  from all code have c: "queueTimeout (resultQueue (activations s 1)) = timeout (config s)"
    by blast
  from all key have k: "0 < nextActivation s"
    "queueTimeout (resultQueue (activations s 0)) = timeout (config s)"
    by blast+
  from all k(1) have r: "queueTimeout (responseQueue (activations s 0)) = timeout (config s)"
    by blast
  from all manifest have m: "queueTimeout q = timeout (config s)" by blast
  from all have p: "queueTimeout (provisionQueue s) = timeout (config s)" by blast
  from run code key manifest t c k(2) r m p
  show "\<exists>s q. exec exampleCollaborators exampleQueues
              (constructor exampleDefaults exampleShortTimeout 0) = Some s
       \<and> queueTimeout (provisionQueue s) = Some 1000
       \<and> provisionResultQueueByCode s ''code'' = Some 1
       \<and> queueTimeout (resultQueue (activations s 1)) = Some 1000
       \<and> provisionResultQueueByKey s ''aci.7'' = Some 0
       \<and> queueTimeout (resultQueue (activations s 0)) = Some 1000
       \<and> queueTimeout (responseQueue (activations s 0)) = Some 1000
       \<and> manifestQueueByUuid s ''aci'' = Some q \<and> queueTimeout q = Some 1000"
    by (intro exI [of _ s] exI [of _ q]) simp
next
  from example_queues [of exampleConfig] obtain s q where
    run: "exec exampleCollaborators exampleQueues
        (constructor exampleDefaults exampleConfig 0) = Some s"
    and code: "provisionResultQueueByCode s ''code'' = Some 1"
    and key: "provisionResultQueueByKey s ''aci.7'' = Some 0"
    and manifest: "manifestQueueByUuid s ''aci'' = Some q"
    by auto
  have omitted: "cfg_timeout exampleConfig = Omitted"
    by (simp add: exampleConfig_def)
  note all = queues_use_configured_timeout [OF run]
  from all omitted have t: "timeout (config s) = Some 60000" by blast
  from all code have c: "queueTimeout (resultQueue (activations s 1)) = timeout (config s)"
    by blast
  from all key have k: "0 < nextActivation s"
    "queueTimeout (resultQueue (activations s 0)) = timeout (config s)"
    by blast+
  from all k(1) have r: "queueTimeout (responseQueue (activations s 0)) = timeout (config s)"
    by blast
  from all manifest have m: "queueTimeout q = timeout (config s)" by blast
  from all have p: "queueTimeout (provisionQueue s) = timeout (config s)" by blast
  from run code key manifest t c k(2) r m p
  show "\<exists>s q. exec exampleCollaborators exampleQueues
              (constructor exampleDefaults exampleConfig 0) = Some s
       \<and> queueTimeout (provisionQueue s) = Some 60000
       \<and> provisionResultQueueByCode s ''code'' = Some 1
       \<and> queueTimeout (resultQueue (activations s 1)) = Some 60000
       \<and> provisionResultQueueByKey s ''aci.7'' = Some 0
       \<and> queueTimeout (resultQueue (activations s 0)) = Some 60000
       \<and> queueTimeout (responseQueue (activations s 0)) = Some 60000
       \<and> manifestQueueByUuid s ''aci'' = Some q \<and> queueTimeout q = Some 60000"
    by (intro exI [of _ s] exI [of _ q]) simp
qed

subsection \<open>\<open>complete\<close> resolves after the keys are uploaded\<close>

text \<open>
  Claim C1: in every run of a server from its construction, when the promise returned
  by \<open>complete\<close> resolves with a device \<open>D\<close> (the \<open>resultQueue.shift()\<close> of the attempt
  yields \<open>D\<close>), \<open>updateDeviceKeys\<close> has been entered with \<open>D\<close> before: result queues are
  filled by \<open>updateDeviceKeys\<close> and by nothing else. In the run, that earlier call is a
  call of \<open>updateDeviceKeys\<close> for \<open>D\<close>, or a \<open>createSecondaryDevice\<close>, which calls
  \<open>updateDeviceKeys\<close> itself.
\<close>

theorem complete_resolves_after_updateDeviceKeys:
  assumes run: "exec env cs (constructor d cfg b) = Some s"
    and resolves: "complete_result a s = (Inr D, s')"
  shows "D \<in> set (keysUpdated s)
       \<and> ((\<exists>keys. UpdateDeviceKeys D keys \<in> set cs) \<or> (\<exists>r. CreateSecondaryDevice r \<in> set cs))"
proof -
  from exec_resultsAfterKeys [OF constructor_resultsAfterKeys run]
  have inv: "resultsAfterKeys s" .
  from resolves have "D \<in> set (entries (resultQueue (activations s a)))"
    by (auto simp: complete_result_def Let_def shift_def split: prod.splits list.splits)
  with inv have D: "D \<in> set (keysUpdated s)" by (auto simp: resultsAfterKeys_def)
  have "keysUpdated (constructor d cfg b) = []" by (simp add: constructor_def Let_def)
  with exec_keysUpdated [OF run D] D show ?thesis by simp
qed

theorem complete_resolves_after_updateDeviceKeys_witness:
  "\<exists>s s'. exec exampleCollaborators exampleRun (constructor exampleDefaults exampleConfig 0) = Some s
     \<and> complete_result 0 s = (Inr exampleDevice, s')
     \<and> exampleDevice \<in> set (keysUpdated s)
     \<and> (\<exists>keys. UpdateDeviceKeys exampleDevice keys \<in> set exampleRun)"
proof -
  from example_run obtain s s' where
    run: "exec exampleCollaborators exampleRun (constructor exampleDefaults exampleConfig 0) = Some s"
    and res: "complete_result 0 s = (Inr exampleDevice, s')"
    by blast
  from complete_resolves_after_updateDeviceKeys [OF run res]
  have "exampleDevice \<in> set (keysUpdated s)" by simp
  moreover have "UpdateDeviceKeys exampleDevice [4] \<in> set exampleRun"
    by (simp add: exampleRun_def)
  ultimately show ?thesis using run res by blast
qed

subsection \<open>Generated numbers are distinct\<close>

text \<open>
  \<open>generateNumber\<close> returns whenever the generator yields, at some later draw, a
  number that is not known.
\<close>

lemma drawNumber_returns:
  "rnd (i + k) \<notin> known \<Longrightarrow> \<exists>y. drawNumber rnd known i = Some y"
proof (induction k arbitrary: i)
  case 0
  then show ?case by (simp add: drawNumber.simps [of rnd known i])
next
  case (Suc k)
  then have "\<exists>y. drawNumber rnd known (Suc i) = Some y" by (intro Suc.IH) simp
  then show ?case by (simp add: drawNumber.simps [of rnd known i])
qed

text \<open>
  Claim C6 reads: for every pair of distinct calls to \<open>createPrimaryDevice\<close> within one
  process lifetime, the internally generated E164 numbers are distinct. \<open>knownNumbers\<close>
  is a field of the \<open>Server\<close> object, so two servers of one process do not see each
  other's numbers: here each of two servers creates its first primary device, the
  generator hands both the same number, and both devices carry it.
\<close>

theorem two_servers_generate_same_number:
  "firstServer \<noteq> secondServer
   \<and> knownNumbers firstServer = {} \<and> knownNumbers secondServer = {}
   \<and> map_option fst (generateNumber repeatingCollaborators firstServer) = Some ''+15550100''
   \<and> map_option fst (generateNumber repeatingCollaborators secondServer) = Some ''+15550100''
   \<and> map_option fst (createPrimaryDevice repeatingCollaborators exampleOptions firstServer)
       = Some (Inr 0)
   \<and> map_option fst (createPrimaryDevice repeatingCollaborators exampleOptions secondServer)
       = Some (Inr 0)
   \<and> createdNumber (createPrimaryDevice repeatingCollaborators exampleOptions firstServer)
       = Some ''+15550100''
   \<and> createdNumber (createPrimaryDevice repeatingCollaborators exampleOptions secondServer)
       = Some ''+15550100''"
  by (simp add: firstServer_def secondServer_def repeatingCollaborators_def example_defs
      exampleOptions_def createdNumber_def)

text \<open>
  Claim C6, amended: for every pair of distinct calls to \<open>createPrimaryDevice\<close> on one
  \<open>Server\<close> object, whatever runs between them, the internally generated E164 numbers
  are distinct: \<open>generateNumber\<close> loops until it produces a number not in that server's
  \<open>knownNumbers\<close> and records it, and no call removes a number, so the set of numbers
  returned by one server never contains a duplicate.
\<close>

theorem createPrimaryDevice_numbers_distinct:
  assumes first: "createPrimaryDevice env opts1 s = Some (r1, s1)"
    and between: "exec env cs s1 = Some s2"
    and second: "createPrimaryDevice env opts2 s2 = Some (r2, s3)"
  shows "\<exists>num1 t1 num2 t2.
           generateNumber env s = Some (num1, t1) \<and> generateNumber env s2 = Some (num2, t2)
         \<and> num1 \<noteq> num2 \<and> num1 \<notin> knownNumbers s \<and> num2 \<notin> knownNumbers s2
         \<and> {num1, num2} \<subseteq> knownNumbers s3"
proof -
  from first obtain num1 t1 where g1: "generateNumber env s = Some (num1, t1)"
    and s1: "s1 = snd (registerNewPrimary env opts1 num1 t1)"
    by (auto simp: createPrimaryDevice_def split: option.splits)
  from second obtain num2 t2 where g2: "generateNumber env s2 = Some (num2, t2)"
    and s3: "s3 = snd (registerNewPrimary env opts2 num2 t2)"
    by (auto simp: createPrimaryDevice_def split: option.splits)
  have st1: "stable t1 s1" unfolding s1 by (rule fixedPart_stable [OF registerNewPrimary_fixed])
  have st3: "stable t2 s3" unfolding s3 by (rule fixedPart_stable [OF registerNewPrimary_fixed])
  from generateNumber_fresh [OF g1] st1 exec_stable [OF between]
  have in2: "num1 \<in> knownNumbers s2" by (auto simp: stable_def)
  with generateNumber_fresh [OF g2] have ne: "num1 \<noteq> num2" by auto
  from in2 generateNumber_stable [OF g2] st3 generateNumber_fresh [OF g2]
  have "{num1, num2} \<subseteq> knownNumbers s3" by (auto simp: stable_def)
  with g1 g2 ne generateNumber_fresh [OF g1] generateNumber_fresh [OF g2]
  show ?thesis by blast
qed

theorem createPrimaryDevice_numbers_distinct_witness:
  "\<exists>r1 s1 r2 s3 t1 t2.
      createPrimaryDevice exampleCollaborators exampleOptions exampleStarted = Some (r1, s1)
    \<and> exec exampleCollaborators [Close] s1 = Some (snd (close s1))
    \<and> createPrimaryDevice exampleCollaborators exampleOptions (snd (close s1)) = Some (Inr r2, s3)
    \<and> generateNumber exampleCollaborators exampleStarted = Some (''1'', t1)
    \<and> generateNumber exampleCollaborators (snd (close s1)) = Some (''11'', t2)
    \<and> createdNumber (createPrimaryDevice exampleCollaborators exampleOptions exampleStarted)
        = Some ''1''
    \<and> createdNumber (createPrimaryDevice exampleCollaborators exampleOptions (snd (close s1)))
        = Some ''11''
    \<and> {''1'', ''11''} \<subseteq> knownNumbers s3"
proof -
  from example_two_primaries obtain r1 s1 r2 s3 where
    first: "createPrimaryDevice exampleCollaborators exampleOptions exampleStarted = Some (r1, s1)"
    and between: "exec exampleCollaborators [Close] s1 = Some (snd (close s1))"
    and second: "createPrimaryDevice exampleCollaborators exampleOptions (snd (close s1))
        = Some (Inr r2, s3)"
    and n1: "map_option fst (generateNumber exampleCollaborators exampleStarted) = Some ''1''"
    and n2: "map_option fst (generateNumber exampleCollaborators (snd (close s1))) = Some ''11''"
    and c1: "createdNumber (createPrimaryDevice exampleCollaborators exampleOptions exampleStarted)
        = Some ''1''"
    and c2: "createdNumber
        (createPrimaryDevice exampleCollaborators exampleOptions (snd (close s1))) = Some ''11''"
    by blast
  from createPrimaryDevice_numbers_distinct [OF first between second]
  obtain num1 t1 num2 t2 where
    g1: "generateNumber exampleCollaborators exampleStarted = Some (num1, t1)"
    and g2: "generateNumber exampleCollaborators (snd (close s1)) = Some (num2, t2)"
    and known: "{num1, num2} \<subseteq> knownNumbers s3"
    by blast
  from g1 n1 have e1: "num1 = ''1''" by simp
  from g2 n2 have e2: "num2 = ''11''" by simp
  from first between second g1 g2 c1 c2 known show ?thesis
    unfolding e1 e2 by blast
qed

subsection \<open>The empty attachment\<close>

lemma registerNewPrimary_groups:
  "registerNewPrimary env opts num s = (Inr r, s') \<Longrightarrow>
     emptyAttachment s = Some (groups (primaries s' r)) \<and> r = nextPrimary s
     \<and> primaryDevices s' num = Some r"
  by (auto simp: registerNewPrimary_def Let_def
      split: prod.splits sum.splits option.splits if_splits)

text \<open>
  Claim C7: when the server starts, \<open>listen\<close> encrypts a buffer of length 0, stores the
  encrypted blob through \<open>storeAttachment\<close> and keeps the pointer made of the CDN key
  and the encrypted data in \<open>emptyAttachment\<close>; every primary device created in any
  later state of the server has that pointer as its \<open>groups\<close> attachment.
\<close>

theorem empty_attachment_preallocated:
  assumes start: "listen env p h s = (Inr (), s1)"
    and run: "exec env cs s1 = Some s2"
    and created: "createPrimaryDevice env opts s2 = Some (Inr r, s3)"
  shows "emptyAttachment s1
           = Some (attachmentToPointer env
                (fst (storeAttachment env (base s) (blob (encryptAttachment env (draws s) []))))
                (encryptAttachment env (draws s) []))
       \<and> base s1 = snd (storeAttachment env (base s) (blob (encryptAttachment env (draws s) [])))
       \<and> groups (primaries s3 r)
           = attachmentToPointer env
                (fst (storeAttachment env (base s) (blob (encryptAttachment env (draws s) []))))
                (encryptAttachment env (draws s) [])"
proof -
  let ?ptr = "attachmentToPointer env
                (fst (storeAttachment env (base s) (blob (encryptAttachment env (draws s) []))))
                (encryptAttachment env (draws s) [])"
  from start have s1: "emptyAttachment s1 = Some ?ptr" "https s1 \<noteq> None"
    "base s1 = snd (storeAttachment env (base s) (blob (encryptAttachment env (draws s) [])))"
    by (auto simp: listen_def Let_def split: prod.splits if_splits)
  from exec_stable [OF run] s1 have s2: "emptyAttachment s2 = Some ?ptr"
    by (simp add: stable_def)
  from created obtain num t where g: "generateNumber env s2 = Some (num, t)"
    and reg: "registerNewPrimary env opts num t = (Inr r, s3)"
    by (auto simp: createPrimaryDevice_def split: option.splits)
  from generateNumber_state [OF g] s2 have "emptyAttachment t = Some ?ptr" by auto
  with registerNewPrimary_groups [OF reg] have "groups (primaries s3 r) = ?ptr" by simp
  with s1 show ?thesis by simp
qed

theorem empty_attachment_preallocated_witness:
  "\<exists>s1 s2 s3 r.
      listen exampleCollaborators 0 None (constructor exampleDefaults exampleConfig 0) = (Inr (), s1)
    \<and> exec exampleCollaborators [Close] s1 = Some s2
    \<and> createPrimaryDevice exampleCollaborators exampleOptions s2 = Some (Inr r, s3)
    \<and> groups (primaries s3 r)
        = \<lparr>cdnKey = [], pointerKey = [0], pointerDigest = [], pointerSize = 0\<rparr>"
proof -
  have "\<exists>s1 s2 s3 r.
      listen exampleCollaborators 0 None (constructor exampleDefaults exampleConfig 0) = (Inr (), s1)
    \<and> exec exampleCollaborators [Close] s1 = Some s2
    \<and> createPrimaryDevice exampleCollaborators exampleOptions s2 = Some (Inr r, s3)"
    by (simp add: example_defs exampleOptions_def close_def)
  then obtain s1 s2 s3 r where
    start: "listen exampleCollaborators 0 None (constructor exampleDefaults exampleConfig 0)
        = (Inr (), s1)"
    and run: "exec exampleCollaborators [Close] s1 = Some s2"
    and created: "createPrimaryDevice exampleCollaborators exampleOptions s2 = Some (Inr r, s3)"
    by blast
  from empty_attachment_preallocated [OF start run created]
  have "groups (primaries s3 r)
      = \<lparr>cdnKey = [], pointerKey = [0], pointerDigest = [], pointerSize = 0\<rparr>"
    by (simp add: exampleCollaborators_def constructor_def Let_def)
  with start run created show ?thesis by blast
qed

end
